theory Spec2Isabelle
  imports Main
begin

section \<open>The module tree of the CLIP text encoder\<close>

text \<open>
  \<^verbatim>\<open>text_encoder.py\<close> builds a tree of layers: every class of the file is a constructor
  that hands its children to \<^verbatim>\<open>fl.Chain\<close> (or is an \<^verbatim>\<open>fl.Embedding\<close>). The tree is a
  datatype with one constructor per layer class of \<^verbatim>\<open>refiners.fluxion.layers\<close> the file uses,
  holding the keyword arguments the file passes. Sizes and counts are natural numbers: the
  source types them \<^verbatim>\<open>int\<close>, and a negative one is no size of a tensor. The placement
  arguments \<^verbatim>\<open>device\<close> and \<^verbatim>\<open>dtype\<close> are passed through unchanged everywhere and are left out.
\<close>

text \<open>A float literal of the source, kept as written: \<^verbatim>\<open>1e-5\<close> is \<open>FloatLit 1 (-5)\<close>.\<close>

datatype pyfloat = FloatLit int int

text \<open>
  \<^verbatim>\<open>CLIPTokenizer(sequence_length=.., pad_token_id=..)\<close>, with \<open>None\<close> for an argument that
  is not passed: the class and its defaults are not in the source file.
\<close>

datatype clip_tokenizer = CLIPTokenizer "nat option" "int option"

datatype module =
    Tokenizer clip_tokenizer
      \<comment> \<open>a \<^verbatim>\<open>CLIPTokenizer\<close> as the first layer of the encoder's chain\<close>
  | fl_Converter bool
      \<comment> \<open>\<^verbatim>\<open>fl.Converter(set_dtype=..)\<close>\<close>
  | fl_Lambda nat
      \<comment> \<open>\<^verbatim>\<open>fl.Lambda(func=self.get_position_ids)\<close> of a PositionalEncoder with this
          \<^verbatim>\<open>max_sequence_length\<close>\<close>
  | fl_Embedding nat nat
      \<comment> \<open>\<^verbatim>\<open>num_embeddings\<close>, \<^verbatim>\<open>embedding_dim\<close>\<close>
  | fl_LayerNorm nat pyfloat
      \<comment> \<open>\<^verbatim>\<open>normalized_shape\<close>, \<^verbatim>\<open>eps\<close>\<close>
  | fl_SelfAttention nat nat bool
      \<comment> \<open>\<^verbatim>\<open>embedding_dim\<close>, \<^verbatim>\<open>num_heads\<close>, \<^verbatim>\<open>is_causal\<close>\<close>
  | fl_Linear nat nat
      \<comment> \<open>\<^verbatim>\<open>in_features\<close>, \<^verbatim>\<open>out_features\<close>\<close>
  | fl_GeLU
  | fl_ApproximateGeLU
  | fl_Chain "module list"
  | fl_Sum "module list"
  | fl_Residual "module list"

text \<open>
  The errors of the spec's taxonomy: an invalid configuration, an index outside an embedding
  table, a mismatch of shapes. \<open>TypeMismatch\<close> stands for a layer that is handed data of a
  kind the source file never sends it (a text to a LayerNorm, token ids to a Linear).
\<close>

datatype error = InvalidConfiguration | IndexOutOfRange | ShapeMismatch | TypeMismatch

subsection \<open>The constructors of the source file\<close>

definition TokenEncoder :: "nat \<Rightarrow> nat \<Rightarrow> module" where
  "TokenEncoder vocabulary_size embedding_dim = fl_Embedding vocabulary_size embedding_dim"

definition PositionalEncoder :: "nat \<Rightarrow> nat \<Rightarrow> module" where
  "PositionalEncoder max_sequence_length embedding_dim =
     fl_Chain [fl_Lambda max_sequence_length, fl_Embedding max_sequence_length embedding_dim]"

definition FeedForward :: "nat \<Rightarrow> nat \<Rightarrow> module" where
  "FeedForward embedding_dim feedforward_dim =
     fl_Chain [fl_Linear embedding_dim feedforward_dim, fl_GeLU,
               fl_Linear feedforward_dim embedding_dim]"

text \<open>
  Modelled from the spec: the constructor of \<^verbatim>\<open>fl.SelfAttention\<close>, which is not in the source
  file. The spec makes \<^verbatim>\<open>embedding_dim\<close> divisible by the number of heads the head-splitting
  invariant of attention and wants a configuration that breaks it rejected at construction
  time. No head count of zero divides anything: Python's \<^verbatim>\<open>%\<close> raises there, while \<open>mod\<close> in
  HOL returns its left argument, so the case is written out.
\<close>

definition SelfAttention_init :: "nat \<Rightarrow> nat \<Rightarrow> bool \<Rightarrow> error + module" where
  "SelfAttention_init embedding_dim num_heads is_causal =
     (if num_heads = 0 then Inl InvalidConfiguration
      else if embedding_dim mod num_heads \<noteq> 0 then Inl InvalidConfiguration
      else Inr (fl_SelfAttention embedding_dim num_heads is_causal))"

text \<open>
  \<^verbatim>\<open>TransformerLayer.__init__\<close>. Its defaults \<^verbatim>\<open>num_attention_heads = 1\<close> and
  \<^verbatim>\<open>layer_norm_eps = 1e-5\<close> are never used in the file: the encoder passes both.
\<close>

definition TransformerLayer :: "nat \<Rightarrow> nat \<Rightarrow> nat \<Rightarrow> pyfloat \<Rightarrow> error + module" where
  "TransformerLayer embedding_dim feedforward_dim num_attention_heads layer_norm_eps =
     (case SelfAttention_init embedding_dim num_attention_heads True of
        Inl e \<Rightarrow> Inl e
      | Inr attention \<Rightarrow>
          Inr (fl_Chain
            [fl_Residual [fl_LayerNorm embedding_dim layer_norm_eps, attention],
             fl_Residual [fl_LayerNorm embedding_dim layer_norm_eps,
                          FeedForward embedding_dim feedforward_dim]]))"

text \<open>
  The generator \<^verbatim>\<open>TransformerLayer(...) for _ in range(num_layers)\<close>: one construction per
  layer, the first failure ending the whole construction.
\<close>

fun transformer_layers :: "nat \<Rightarrow> nat \<Rightarrow> nat \<Rightarrow> nat \<Rightarrow> pyfloat \<Rightarrow> error + module list" where
  "transformer_layers 0 d f h eps = Inr []"
| "transformer_layers (Suc n) d f h eps =
     (case TransformerLayer d f h eps of
        Inl e \<Rightarrow> Inl e
      | Inr layer \<Rightarrow>
          (case transformer_layers n d f h eps of
             Inl e \<Rightarrow> Inl e
           | Inr layers \<Rightarrow> Inr (layer # layers)))"

subsection \<open>Walking and rewriting the tree\<close>

text \<open>
  Modelled from the spec: \<^verbatim>\<open>fl.Chain.walk\<close> and \<^verbatim>\<open>fl.Chain.replace\<close>, which are not in the
  source file. The spec has the rewrite pass walk the composed structure and substitute
  activation instances in place. A Python module instance is named here by its path, the
  child indices from the root: \<open>walk\<close> lists the paths of the modules that satisfy the
  predicate, in the order of the traversal, and \<open>replace\<close> puts a new module at a path and
  touches nothing else.
\<close>

type_synonym path = "nat list"

fun children :: "module \<Rightarrow> module list" where
  "children (fl_Chain ms) = ms"
| "children (fl_Sum ms) = ms"
| "children (fl_Residual ms) = ms"
| "children _ = []"

fun with_children :: "module \<Rightarrow> module list \<Rightarrow> module" where
  "with_children (fl_Chain _) ms = fl_Chain ms"
| "with_children (fl_Sum _) ms = fl_Sum ms"
| "with_children (fl_Residual _) ms = fl_Residual ms"
| "with_children m _ = m"

fun walk :: "(module \<Rightarrow> bool) \<Rightarrow> module \<Rightarrow> path list"
  and walk_from :: "(module \<Rightarrow> bool) \<Rightarrow> nat \<Rightarrow> module list \<Rightarrow> path list" where
  "walk P (fl_Chain ms) = walk_from P 0 ms"
| "walk P (fl_Sum ms) = walk_from P 0 ms"
| "walk P (fl_Residual ms) = walk_from P 0 ms"
| "walk P (Tokenizer _) = []"
| "walk P (fl_Converter _) = []"
| "walk P (fl_Lambda _) = []"
| "walk P (fl_Embedding _ _) = []"
| "walk P (fl_LayerNorm _ _) = []"
| "walk P (fl_SelfAttention _ _ _) = []"
| "walk P (fl_Linear _ _) = []"
| "walk P fl_GeLU = []"
| "walk P fl_ApproximateGeLU = []"
| "walk_from P i [] = []"
| "walk_from P i (m # ms) =
     (if P m then [[i]] else []) @ map ((#) i) (walk P m) @ walk_from P (Suc i) ms"

fun replace :: "path \<Rightarrow> module \<Rightarrow> module \<Rightarrow> module" where
  "replace [] new m = new"
| "replace (i # p) new m =
     (if i < length (children m)
      then with_children m ((children m)[i := replace p new (children m ! i)])
      else m)"

definition is_GeLU :: "module \<Rightarrow> bool" where
  "is_GeLU m = (case m of fl_GeLU \<Rightarrow> True | _ \<Rightarrow> False)"

text \<open>
  The loop \<^verbatim>\<open>for gelu, parent in self.walk(...): parent.replace(gelu, fl.ApproximateGeLU())\<close>.
\<close>

definition quick_gelu_pass :: "module \<Rightarrow> module" where
  "quick_gelu_pass m = fold (\<lambda>p t. replace p fl_ApproximateGeLU t) (walk is_GeLU m) m"

subsection \<open>The encoder and its presets\<close>

record config =
  embedding_dim :: nat
  max_sequence_length :: nat
  vocabulary_size :: nat
  num_layers :: nat
  num_attention_heads :: nat
  feedforward_dim :: nat
  layer_norm_eps :: pyfloat
  use_quick_gelu :: bool

text \<open>The arguments of \<^verbatim>\<open>CLIPTextEncoder.__init__\<close>; \<open>tokenizer = None\<close> as in the source.\<close>

record encoder_args = config +
  tokenizer :: "clip_tokenizer option"

text \<open>A constructed encoder: the attributes \<^verbatim>\<open>__init__\<close> stores, and the chain it is.\<close>

record encoder = config +
  chain :: module

text \<open>The defaults of the signature of \<^verbatim>\<open>CLIPTextEncoder.__init__\<close>.\<close>

definition default_args :: encoder_args where
  "default_args =
     \<lparr> embedding_dim = 768, max_sequence_length = 77, vocabulary_size = 49408,
       num_layers = 12, num_attention_heads = 12, feedforward_dim = 3072,
       layer_norm_eps = FloatLit 1 (- 5), use_quick_gelu = False, tokenizer = None \<rparr>"

definition CLIPTextEncoder :: "encoder_args \<Rightarrow> error + encoder" where
  "CLIPTextEncoder a =
     (case transformer_layers (num_layers a) (embedding_dim a) (feedforward_dim a)
             (num_attention_heads a) (layer_norm_eps a) of
        Inl e \<Rightarrow> Inl e
      | Inr layers \<Rightarrow>
          (let built = fl_Chain
                 ([Tokenizer (case tokenizer a of
                     Some t \<Rightarrow> t
                   | None \<Rightarrow> CLIPTokenizer (Some (max_sequence_length a)) None),
                   fl_Converter False,
                   fl_Sum [TokenEncoder (vocabulary_size a) (embedding_dim a),
                           PositionalEncoder (max_sequence_length a) (embedding_dim a)]]
                  @ layers
                  @ [fl_LayerNorm (embedding_dim a) (layer_norm_eps a)])
           in Inr \<lparr> embedding_dim = embedding_dim a,
                    max_sequence_length = max_sequence_length a,
                    vocabulary_size = vocabulary_size a,
                    num_layers = num_layers a,
                    num_attention_heads = num_attention_heads a,
                    feedforward_dim = feedforward_dim a,
                    layer_norm_eps = layer_norm_eps a,
                    use_quick_gelu = use_quick_gelu a,
                    chain = (if use_quick_gelu a then quick_gelu_pass built else built) \<rparr>))"

definition CLIPTextEncoderL :: "error + encoder" where
  "CLIPTextEncoderL =
     CLIPTextEncoder (default_args \<lparr> embedding_dim := 768, num_layers := 12,
       num_attention_heads := 12, feedforward_dim := 3072, use_quick_gelu := True \<rparr>)"

definition CLIPTextEncoderH :: "error + encoder" where
  "CLIPTextEncoderH =
     CLIPTextEncoder (default_args \<lparr> embedding_dim := 1024, num_layers := 23,
       num_attention_heads := 16, feedforward_dim := 4096 \<rparr>)"

definition CLIPTextEncoderG :: "error + encoder" where
  "CLIPTextEncoderG =
     (let tokenizer' = CLIPTokenizer None (Some 0)
      in CLIPTextEncoder (default_args \<lparr> embedding_dim := 1280, num_layers := 32,
           num_attention_heads := 20, feedforward_dim := 5120,
           tokenizer := Some tokenizer' \<rparr>))"

subsection \<open>Reading a constructed tree\<close>

fun count_modules :: "(module \<Rightarrow> bool) \<Rightarrow> module \<Rightarrow> nat"
  and count_in :: "(module \<Rightarrow> bool) \<Rightarrow> module list \<Rightarrow> nat" where
  "count_modules P (fl_Chain ms) = (if P (fl_Chain ms) then 1 else 0) + count_in P ms"
| "count_modules P (fl_Sum ms) = (if P (fl_Sum ms) then 1 else 0) + count_in P ms"
| "count_modules P (fl_Residual ms) = (if P (fl_Residual ms) then 1 else 0) + count_in P ms"
| "count_modules P (Tokenizer t) = (if P (Tokenizer t) then 1 else 0)"
| "count_modules P (fl_Converter b) = (if P (fl_Converter b) then 1 else 0)"
| "count_modules P (fl_Lambda n) = (if P (fl_Lambda n) then 1 else 0)"
| "count_modules P (fl_Embedding n d) = (if P (fl_Embedding n d) then 1 else 0)"
| "count_modules P (fl_LayerNorm d e) = (if P (fl_LayerNorm d e) then 1 else 0)"
| "count_modules P (fl_SelfAttention d h c) = (if P (fl_SelfAttention d h c) then 1 else 0)"
| "count_modules P (fl_Linear i o') = (if P (fl_Linear i o') then 1 else 0)"
| "count_modules P fl_GeLU = (if P fl_GeLU then 1 else 0)"
| "count_modules P fl_ApproximateGeLU = (if P fl_ApproximateGeLU then 1 else 0)"
| "count_in P [] = 0"
| "count_in P (m # ms) = count_modules P m + count_in P ms"

definition is_ApproximateGeLU :: "module \<Rightarrow> bool" where
  "is_ApproximateGeLU m = (case m of fl_ApproximateGeLU \<Rightarrow> True | _ \<Rightarrow> False)"

definition tokenizer_of :: "encoder \<Rightarrow> clip_tokenizer option" where
  "tokenizer_of enc = (case children (chain enc) of Tokenizer t # _ \<Rightarrow> Some t | _ \<Rightarrow> None)"

section \<open>The forward pass\<close>

text \<open>
  Modelled from the spec: the forward pass of the layers of \<^verbatim>\<open>refiners.fluxion.layers\<close> and of
  the tokenizer, none of which is in the source file. The spec gives their contracts: a chain
  feeds each layer's output to the next, a residual connection returns its input plus the
  output of its branch, a sum adds the outputs of its children on the same input, an
  embedding looks rows up in a table and fails on an index outside it, layer normalisation
  and the feed-forward projections act on each token's vector on its own, causal attention
  lets position \<open>i\<close> see positions up to \<open>i\<close> only, and the tokenizer returns one row of
  \<^verbatim>\<open>sequence_length\<close> ids per text, padded or truncated.

  The arithmetic of the tensor runtime is a parameter: a token's vector is a value of an
  arbitrary type \<open>'v\<close>, and the record \<open>runtime\<close> holds the kernels on it. Every layer instance
  has parameters of its own, so the kernels that read parameters take the path of the layer.
\<close>

text \<open>
  A tensor of shape \<open>(batch, sequence_length)\<close>: the rows, and the sequence length kept
  beside them as the shape of a tensor is (an empty batch still has one).
\<close>

datatype 'a grid = Grid (width: nat) (rows: "'a list list")

text \<open>
  What flows between layers: a text or a batch of texts, a tensor of token ids, or a hidden
  state of shape \<open>(batch, sequence_length, dim)\<close> with \<open>dim\<close> the size of each vector.
\<close>

datatype 'v data =
    Str string
  | Strs "string list"
  | Ids "int grid"
  | Hidden nat "'v grid"

record 'v runtime =
  rt_bpe :: "string \<Rightarrow> int list"
    \<comment> \<open>the token ids of a text, before padding\<close>
  rt_sequence_length :: nat
    \<comment> \<open>the tokenizer's own default \<^verbatim>\<open>sequence_length\<close>\<close>
  rt_pad_token_id :: int
    \<comment> \<open>the tokenizer's own default \<^verbatim>\<open>pad_token_id\<close>\<close>
  rt_embedding :: "path \<Rightarrow> nat \<Rightarrow> 'v"
    \<comment> \<open>row of the embedding table of the layer at a path\<close>
  rt_layer_norm :: "path \<Rightarrow> pyfloat \<Rightarrow> 'v \<Rightarrow> 'v"
  rt_attention :: "path \<Rightarrow> nat \<Rightarrow> 'v \<Rightarrow> 'v list \<Rightarrow> 'v"
    \<comment> \<open>number of heads, the vector at the querying position, the vectors it may see\<close>
  rt_linear :: "path \<Rightarrow> 'v \<Rightarrow> 'v"
  rt_gelu :: "'v \<Rightarrow> 'v"
  rt_approximate_gelu :: "'v \<Rightarrow> 'v"
  rt_add :: "'v \<Rightarrow> 'v \<Rightarrow> 'v"

definition well_formed :: "'a grid \<Rightarrow> bool" where
  "well_formed g = list_all (\<lambda>r. length r = width g) (rows g)"

definition grid_map :: "('a \<Rightarrow> 'b) \<Rightarrow> 'a grid \<Rightarrow> 'b grid" where
  "grid_map f g = Grid (width g) (map (map f) (rows g))"

subsection \<open>Tokenizer\<close>

text \<open>
  Modelled from the spec: \<^verbatim>\<open>CLIPTokenizer\<close>, which is not in the source file. The spec has it
  return, for every text, a row of ids padded or truncated to its configured sequence length
  with its configured pad-token id. The ids of the text itself and the defaults of the two
  settings come from the runtime.
\<close>

definition pad_or_truncate :: "nat \<Rightarrow> int \<Rightarrow> int list \<Rightarrow> int list" where
  "pad_or_truncate n pad ids = take n (ids @ replicate (n - length ids) pad)"

definition tokenizer_length :: "'v runtime \<Rightarrow> nat option \<Rightarrow> nat" where
  "tokenizer_length K sequence_length =
     (case sequence_length of Some n \<Rightarrow> n | None \<Rightarrow> rt_sequence_length K)"

definition encode :: "'v runtime \<Rightarrow> nat option \<Rightarrow> int option \<Rightarrow> string \<Rightarrow> int list" where
  "encode K sequence_length pad_token_id s =
     pad_or_truncate (tokenizer_length K sequence_length)
       (case pad_token_id of Some t \<Rightarrow> t | None \<Rightarrow> rt_pad_token_id K) (rt_bpe K s)"

subsection \<open>PositionalEncoder.position\_ids and get\_position\_ids\<close>

text \<open>\<^verbatim>\<open>arange(end=self.max_sequence_length).reshape(1, -1)\<close>: one row, \<open>0 .. max - 1\<close>.\<close>

definition position_ids :: "nat \<Rightarrow> int grid" where
  "position_ids max_length =
     Grid max_length [map int [0..<max_length]]"

text \<open>
  \<^verbatim>\<open>t[:, :n]\<close>: every row, and of each row the first \<open>n\<close> entries. A Python slice stops at the
  end of the row when \<open>n\<close> is larger, as \<open>take\<close> does.
\<close>

definition slice_columns :: "nat \<Rightarrow> 'a grid \<Rightarrow> 'a grid" where
  "slice_columns n g = Grid (min n (width g)) (map (take n) (rows g))"

text \<open>\<^verbatim>\<open>x.shape[1]\<close>; a text has no shape.\<close>

definition shape1 :: "'v data \<Rightarrow> nat option" where
  "shape1 x = (case x of Ids g \<Rightarrow> Some (width g) | Hidden _ g \<Rightarrow> Some (width g) | _ \<Rightarrow> None)"

definition get_position_ids :: "nat \<Rightarrow> 'v data \<Rightarrow> error + 'v data" where
  "get_position_ids max_length x =
     (case shape1 x of
        None \<Rightarrow> Inl TypeMismatch
      | Some n \<Rightarrow> Inr (Ids (slice_columns n (position_ids max_length))))"

subsection \<open>Adding tensors\<close>

text \<open>
  Modelled from the spec: the elementwise addition of the tensor runtime, which \<^verbatim>\<open>fl.Sum\<close> and
  \<^verbatim>\<open>fl.Residual\<close> use and which is not in the source file. Two sizes of an axis go together
  when they are equal or one of them is 1; the axis of size 1 is then repeated. Any other
  pair of sizes is the spec's fatal shape mismatch. The vectors themselves are added by the
  kernel \<open>rt_add\<close>.
\<close>

definition broadcast :: "nat \<Rightarrow> nat \<Rightarrow> nat option" where
  "broadcast a b =
     (if a = b then Some a else if a = 1 then Some b else if b = 1 then Some a else None)"

definition stretch :: "nat \<Rightarrow> 'a list \<Rightarrow> 'a list" where
  "stretch n xs = (case xs of [x] \<Rightarrow> replicate n x | _ \<Rightarrow> xs)"

definition grid_add :: "('a \<Rightarrow> 'a \<Rightarrow> 'a) \<Rightarrow> 'a grid \<Rightarrow> 'a grid \<Rightarrow> error + 'a grid" where
  "grid_add f g1 g2 =
     (case broadcast (length (rows g1)) (length (rows g2)) of
        None \<Rightarrow> Inl ShapeMismatch
      | Some b \<Rightarrow>
          (case broadcast (width g1) (width g2) of
             None \<Rightarrow> Inl ShapeMismatch
           | Some w \<Rightarrow>
               Inr (Grid w (map2 (\<lambda>r1 r2. map2 f (stretch w r1) (stretch w r2))
                                 (stretch b (rows g1)) (stretch b (rows g2))))))"

definition tensor_add :: "'v runtime \<Rightarrow> 'v data \<Rightarrow> 'v data \<Rightarrow> error + 'v data" where
  "tensor_add K x y =
     (case (x, y) of
        (Hidden d1 g1, Hidden d2 g2) \<Rightarrow>
          (case broadcast d1 d2 of
             None \<Rightarrow> Inl ShapeMismatch
           | Some d \<Rightarrow>
               (case grid_add (rt_add K) g1 g2 of
                  Inl e \<Rightarrow> Inl e
                | Inr g \<Rightarrow> Inr (Hidden d g)))
      | _ \<Rightarrow> Inl TypeMismatch)"

subsection \<open>Attention\<close>

text \<open>
  Modelled from the spec: the forward pass of \<^verbatim>\<open>fl.SelfAttention\<close>, which is not in the source
  file, on one sequence. The output at position \<open>i\<close> is computed from the vector at \<open>i\<close> and
  the vectors it attends to, which are the positions up to and including \<open>i\<close> when the
  attention is causal (the spec: position \<open>i\<close> only attends to positions \<open>\<le> i\<close>) and all
  positions otherwise.
\<close>

definition attend :: "('v \<Rightarrow> 'v list \<Rightarrow> 'v) \<Rightarrow> bool \<Rightarrow> 'v list \<Rightarrow> 'v list" where
  "attend f is_causal xs =
     map (\<lambda>i. f (xs ! i) (if is_causal then take (Suc i) xs else xs)) [0..<length xs]"

subsection \<open>Layers\<close>

text \<open>
  Modelled from the spec: the forward passes of \<^verbatim>\<open>fl.Chain\<close>, \<^verbatim>\<open>fl.Sum\<close>, \<^verbatim>\<open>fl.Residual\<close>,
  \<^verbatim>\<open>fl.Embedding\<close>, \<^verbatim>\<open>fl.LayerNorm\<close>, \<^verbatim>\<open>fl.SelfAttention\<close>, \<^verbatim>\<open>fl.Linear\<close>, the two GeLU
  layers, \<^verbatim>\<open>fl.Converter\<close> and \<^verbatim>\<open>fl.Lambda\<close>, none of which is in the source file. An embedding
  needs every index inside its table. LayerNorm, SelfAttention and Linear need the last axis
  of their input to have the size they were built for; a Linear changes it to its
  \<^verbatim>\<open>out_features\<close>. The layer at child \<open>i\<close> of a container at path \<open>p\<close> has the path \<open>p @ [i]\<close>.
  A sum adds the outputs of its children from left to right and has at least one child.
  The Lambda of a PositionalEncoder calls \<open>get_position_ids\<close>, which is in the source file.
\<close>

definition in_table :: "nat \<Rightarrow> int grid \<Rightarrow> bool" where
  "in_table n g = list_all (list_all (\<lambda>i. 0 \<le> i \<and> i < int n)) (rows g)"

fun forward :: "'v runtime \<Rightarrow> path \<Rightarrow> module \<Rightarrow> 'v data \<Rightarrow> error + 'v data"
  and run_chain :: "'v runtime \<Rightarrow> path \<Rightarrow> nat \<Rightarrow> module list \<Rightarrow> 'v data \<Rightarrow> error + 'v data"
  and run_sum ::
    "'v runtime \<Rightarrow> path \<Rightarrow> nat \<Rightarrow> module list \<Rightarrow> 'v data \<Rightarrow> 'v data \<Rightarrow> error + 'v data"
where
  "forward K p (Tokenizer (CLIPTokenizer sequence_length pad_token_id)) x =
     (case x of
        Str s \<Rightarrow>
          Inr (Ids (Grid (tokenizer_length K sequence_length)
                      [encode K sequence_length pad_token_id s]))
      | Strs ss \<Rightarrow>
          Inr (Ids (Grid (tokenizer_length K sequence_length)
                      (map (encode K sequence_length pad_token_id) ss)))
      | _ \<Rightarrow> Inl TypeMismatch)"
| "forward K p (fl_Converter set_dtype) x = Inr x"
| "forward K p (fl_Lambda max_length) x = get_position_ids max_length x"
| "forward K p (fl_Embedding num_embeddings dim) x =
     (case x of
        Ids g \<Rightarrow>
          (if in_table num_embeddings g
           then Inr (Hidden dim (grid_map (\<lambda>i. rt_embedding K p (nat i)) g))
           else Inl IndexOutOfRange)
      | _ \<Rightarrow> Inl TypeMismatch)"
| "forward K p (fl_LayerNorm normalized_shape eps) x =
     (case x of
        Hidden d g \<Rightarrow>
          (if d = normalized_shape then Inr (Hidden d (grid_map (rt_layer_norm K p eps) g))
           else Inl ShapeMismatch)
      | _ \<Rightarrow> Inl TypeMismatch)"
| "forward K p (fl_SelfAttention dim num_heads is_causal) x =
     (case x of
        Hidden d g \<Rightarrow>
          (if d = dim
           then Inr (Hidden d (Grid (width g)
                        (map (attend (rt_attention K p num_heads) is_causal) (rows g))))
           else Inl ShapeMismatch)
      | _ \<Rightarrow> Inl TypeMismatch)"
| "forward K p (fl_Linear in_features out_features) x =
     (case x of
        Hidden d g \<Rightarrow>
          (if d = in_features then Inr (Hidden out_features (grid_map (rt_linear K p) g))
           else Inl ShapeMismatch)
      | _ \<Rightarrow> Inl TypeMismatch)"
| "forward K p fl_GeLU x =
     (case x of
        Hidden d g \<Rightarrow> Inr (Hidden d (grid_map (rt_gelu K) g))
      | _ \<Rightarrow> Inl TypeMismatch)"
| "forward K p fl_ApproximateGeLU x =
     (case x of
        Hidden d g \<Rightarrow> Inr (Hidden d (grid_map (rt_approximate_gelu K) g))
      | _ \<Rightarrow> Inl TypeMismatch)"
| "forward K p (fl_Chain ms) x = run_chain K p 0 ms x"
| "forward K p (fl_Residual ms) x =
     (case run_chain K p 0 ms x of
        Inl e \<Rightarrow> Inl e
      | Inr y \<Rightarrow> tensor_add K x y)"
| "forward K p (fl_Sum []) x = Inl TypeMismatch"
| "forward K p (fl_Sum (m # ms)) x =
     (case forward K (p @ [0]) m x of
        Inl e \<Rightarrow> Inl e
      | Inr y \<Rightarrow> run_sum K p 1 ms x y)"
| "run_chain K p i [] x = Inr x"
| "run_chain K p i (m # ms) x =
     (case forward K (p @ [i]) m x of
        Inl e \<Rightarrow> Inl e
      | Inr y \<Rightarrow> run_chain K p (Suc i) ms y)"
| "run_sum K p i [] x acc = Inr acc"
| "run_sum K p i (m # ms) x acc =
     (case forward K (p @ [i]) m x of
        Inl e \<Rightarrow> Inl e
      | Inr y \<Rightarrow>
          (case tensor_add K acc y of
             Inl e \<Rightarrow> Inl e
           | Inr acc' \<Rightarrow> run_sum K p (Suc i) ms x acc'))"

text \<open>Calling an encoder, \<^verbatim>\<open>self(x)\<close>, runs its chain from the root.\<close>

definition call :: "'v runtime \<Rightarrow> encoder \<Rightarrow> 'v data \<Rightarrow> error + 'v data" where
  "call K enc x = forward K [] (chain enc) x"


section \<open>Auxiliary notions for the statements\<close>

text \<open>
  The rewrite the spec describes, said in one recursion: every exact GeLU becomes an
  approximate GeLU and every other module stays what and where it is.
\<close>

fun swap_gelu :: "module \<Rightarrow> module" where
  "swap_gelu fl_GeLU = fl_ApproximateGeLU"
| "swap_gelu (fl_Chain ms) = fl_Chain (map swap_gelu ms)"
| "swap_gelu (fl_Sum ms) = fl_Sum (map swap_gelu ms)"
| "swap_gelu (fl_Residual ms) = fl_Residual (map swap_gelu ms)"
| "swap_gelu m = m"

fun container :: "module \<Rightarrow> bool" where
  "container (fl_Chain _) = True"
| "container (fl_Sum _) = True"
| "container (fl_Residual _) = True"
| "container _ = False"

text \<open>The tree of one transformer layer and of a whole encoder, written out.\<close>

definition activation :: "bool \<Rightarrow> module" where
  "activation quick = (if quick then fl_ApproximateGeLU else fl_GeLU)"

definition layer_tree :: "nat \<Rightarrow> nat \<Rightarrow> nat \<Rightarrow> pyfloat \<Rightarrow> bool \<Rightarrow> module" where
  "layer_tree d f h eps quick =
     fl_Chain
       [fl_Residual [fl_LayerNorm d eps, fl_SelfAttention d h True],
        fl_Residual [fl_LayerNorm d eps,
                     fl_Chain [fl_Linear d f, activation quick, fl_Linear f d]]]"

definition the_tokenizer :: "encoder_args \<Rightarrow> clip_tokenizer" where
  "the_tokenizer a =
     (case tokenizer a of
        Some t \<Rightarrow> t
      | None \<Rightarrow> CLIPTokenizer (Some (max_sequence_length a)) None)"

definition encoder_tree :: "encoder_args \<Rightarrow> module" where
  "encoder_tree a =
     fl_Chain
       ([Tokenizer (the_tokenizer a), fl_Converter False,
         fl_Sum [fl_Embedding (vocabulary_size a) (embedding_dim a),
                 fl_Chain [fl_Lambda (max_sequence_length a),
                           fl_Embedding (max_sequence_length a) (embedding_dim a)]]]
        @ replicate (num_layers a)
            (layer_tree (embedding_dim a) (feedforward_dim a) (num_attention_heads a)
               (layer_norm_eps a) (use_quick_gelu a))
        @ [fl_LayerNorm (embedding_dim a) (layer_norm_eps a)])"

text \<open>The head-splitting invariant of the spec.\<close>

definition heads_divide :: "encoder_args \<Rightarrow> bool" where
  "heads_divide a =
     (num_attention_heads a \<noteq> 0 \<and> embedding_dim a mod num_attention_heads a = 0)"

text \<open>A preset whose tokenizer was constructed with a \<^verbatim>\<open>pad_token_id\<close> of its own.\<close>

definition pad_token_given :: "error + encoder \<Rightarrow> bool" where
  "pad_token_given r =
     (case r of
        Inl _ \<Rightarrow> False
      | Inr enc \<Rightarrow>
          (case tokenizer_of enc of
             Some (CLIPTokenizer _ (Some _)) \<Rightarrow> True
           | _ \<Rightarrow> False))"

subsection \<open>The layers as functions on a hidden state\<close>

text \<open>
  The sub-blocks of a transformer layer in the words of the spec, as functions on the grid of
  a hidden state: \<open>x + SelfAttention(LayerNorm(x))\<close>, then \<open>x + FeedForward(LayerNorm(x))\<close>.
  The path names the layer instance whose parameters are read.
\<close>

definition act :: "'v runtime \<Rightarrow> bool \<Rightarrow> 'v \<Rightarrow> 'v" where
  "act K quick = (if quick then rt_approximate_gelu K else rt_gelu K)"

definition layer_norm :: "'v runtime \<Rightarrow> path \<Rightarrow> pyfloat \<Rightarrow> 'v grid \<Rightarrow> 'v grid" where
  "layer_norm K p eps x = grid_map (rt_layer_norm K p eps) x"

definition causal_self_attention :: "'v runtime \<Rightarrow> path \<Rightarrow> nat \<Rightarrow> 'v grid \<Rightarrow> 'v grid" where
  "causal_self_attention K p h x =
     Grid (width x) (map (attend (rt_attention K p h) True) (rows x))"

definition feed_forward :: "'v runtime \<Rightarrow> path \<Rightarrow> bool \<Rightarrow> 'v grid \<Rightarrow> 'v grid" where
  "feed_forward K p quick x =
     grid_map (\<lambda>v. rt_linear K (p @ [2]) (act K quick (rt_linear K (p @ [0]) v))) x"

text \<open>Adding two hidden states of one shape, position by position.\<close>

definition residual_plus :: "'v runtime \<Rightarrow> 'v grid \<Rightarrow> 'v grid \<Rightarrow> 'v grid" where
  "residual_plus K x y = Grid (width x) (map2 (map2 (rt_add K)) (rows x) (rows y))"

definition attention_block :: "'v runtime \<Rightarrow> path \<Rightarrow> nat \<Rightarrow> pyfloat \<Rightarrow> 'v grid \<Rightarrow> 'v grid" where
  "attention_block K p h eps x =
     residual_plus K x (causal_self_attention K (p @ [1]) h (layer_norm K (p @ [0]) eps x))"

definition feed_forward_block ::
  "'v runtime \<Rightarrow> path \<Rightarrow> pyfloat \<Rightarrow> bool \<Rightarrow> 'v grid \<Rightarrow> 'v grid" where
  "feed_forward_block K p eps quick x =
     residual_plus K x (feed_forward K (p @ [1]) quick (layer_norm K (p @ [0]) eps x))"

definition pre_norm_layer ::
  "'v runtime \<Rightarrow> path \<Rightarrow> nat \<Rightarrow> pyfloat \<Rightarrow> bool \<Rightarrow> 'v grid \<Rightarrow> 'v grid" where
  "pre_norm_layer K p h eps quick x =
     feed_forward_block K (p @ [1]) eps quick (attention_block K (p @ [0]) h eps x)"

text \<open>The layers at the children \<open>i, i + 1, ..\<close> of a chain at the root, one after the other.\<close>

fun run_layers ::
  "'v runtime \<Rightarrow> nat \<Rightarrow> nat \<Rightarrow> nat \<Rightarrow> pyfloat \<Rightarrow> bool \<Rightarrow> 'v grid \<Rightarrow> 'v grid" where
  "run_layers K i 0 h eps quick x = x"
| "run_layers K i (Suc n) h eps quick x =
     run_layers K (Suc i) n h eps quick (pre_norm_layer K [i] h eps quick x)"

text \<open>
  The sum of token and positional embeddings of an encoder: the row of position embeddings is
  added to the token embeddings of every sequence of the batch.
\<close>

definition embed :: "'v runtime \<Rightarrow> int grid \<Rightarrow> 'v grid" where
  "embed K g =
     Grid (width g)
       (map (\<lambda>r. map2 (rt_add K) (map (\<lambda>t. rt_embedding K [2, 0] (nat t)) r)
                        (map (rt_embedding K [2, 1, 1]) [0..<width g]))
            (rows g))"

definition encoder_fn :: "'v runtime \<Rightarrow> encoder_args \<Rightarrow> int grid \<Rightarrow> 'v grid" where
  "encoder_fn K a g =
     layer_norm K [3 + num_layers a] (layer_norm_eps a)
       (run_layers K 3 (num_layers a) (num_attention_heads a) (layer_norm_eps a)
          (use_quick_gelu a) (embed K g))"

text \<open>What the tokenizer of an encoder makes of a text or a batch of texts.\<close>

definition tokenized :: "'v runtime \<Rightarrow> clip_tokenizer \<Rightarrow> 'v data \<Rightarrow> int grid option" where
  "tokenized K t x =
     (case t of CLIPTokenizer sequence_length pad_token_id \<Rightarrow>
        (case x of
           Str s \<Rightarrow>
             Some (Grid (tokenizer_length K sequence_length)
                     [encode K sequence_length pad_token_id s])
         | Strs ss \<Rightarrow>
             Some (Grid (tokenizer_length K sequence_length)
                     (map (encode K sequence_length pad_token_id) ss))
         | _ \<Rightarrow> None))"

text \<open>The first \<open>n\<close> positions of every sequence of a batch.\<close>

definition prefix :: "nat \<Rightarrow> 'a grid \<Rightarrow> 'a list list" where
  "prefix n g = map (take n) (rows g)"


text \<open>The module at a path of a tree, and what it returns on an input.\<close>

fun module_at :: "path \<Rightarrow> module \<Rightarrow> module option" where
  "module_at [] m = Some m"
| "module_at (i # p) m =
     (if i < length (children m) then module_at p (children m ! i) else None)"

definition layer_output ::
  "'v runtime \<Rightarrow> module \<Rightarrow> path \<Rightarrow> 'v data \<Rightarrow> (error + 'v data) option" where
  "layer_output K tree p x =
     (case module_at p tree of None \<Rightarrow> None | Some m \<Rightarrow> Some (forward K p m x))"

text \<open>
  A runtime on numbers that can be run: a token's vector is one natural number, the text is
  tokenized to its character codes, and every kernel is a small arithmetic function.
\<close>

definition example_runtime :: "nat runtime" where
  "example_runtime =
     \<lparr> rt_bpe = map (\<lambda>c. int (of_char c)),
       rt_sequence_length = 3,
       rt_pad_token_id = 0,
       rt_embedding = (\<lambda>p i. length p + i),
       rt_layer_norm = (\<lambda>p eps v. v + 1),
       rt_attention = (\<lambda>p h q seen. q + sum_list seen),
       rt_linear = (\<lambda>p v. 2 * v),
       rt_gelu = (\<lambda>v. v),
       rt_approximate_gelu = (\<lambda>v. v + 1),
       rt_add = (+) \<rparr>"

text \<open>A small configuration and the encoder it constructs, to run the model on.\<close>

definition example_args :: encoder_args where
  "example_args =
     \<lparr> embedding_dim = 4, max_sequence_length = 3, vocabulary_size = 128,
       num_layers = 2, num_attention_heads = 2, feedforward_dim = 8,
       layer_norm_eps = FloatLit 1 (- 5), use_quick_gelu = False, tokenizer = None \<rparr>"

definition example_encoder :: encoder where
  "example_encoder =
     \<lparr> embedding_dim = 4, max_sequence_length = 3, vocabulary_size = 128,
       num_layers = 2, num_attention_heads = 2, feedforward_dim = 8,
       layer_norm_eps = FloatLit 1 (- 5), use_quick_gelu = False,
       chain = encoder_tree example_args \<rparr>"

section \<open>Properties of the construction\<close>

subsection \<open>The rewrite pass\<close>

lemma children_with_children: "container c \<Longrightarrow> children (with_children c cs) = cs"
  by (cases c) simp_all

lemma with_children_twice: "with_children (with_children c cs) cs' = with_children c cs'"
  by (cases c) simp_all

lemma fold_replace_child:
  "container c \<Longrightarrow> i < length cs \<Longrightarrow>
   fold (\<lambda>p t. replace p new t) (map ((#) i) ps) (with_children c cs) =
   with_children c (cs[i := fold (\<lambda>p t. replace p new t) ps (cs ! i)])"
proof (induction ps arbitrary: cs)
  case Nil
  then show ?case by simp
next
  case (Cons p ps)
  let ?cs = "cs[i := replace p new (cs ! i)]"
  have "fold (\<lambda>p t. replace p new t) (map ((#) i) (p # ps)) (with_children c cs) =
        fold (\<lambda>p t. replace p new t) (map ((#) i) ps) (with_children c ?cs)"
    using Cons.prems by (simp add: children_with_children with_children_twice)
  also have "\<dots> = with_children c (?cs[i := fold (\<lambda>p t. replace p new t) ps (?cs ! i)])"
    using Cons.prems by (intro Cons.IH) simp_all
  finally show ?case using Cons.prems by simp
qed

lemma is_GeLU_iff: "is_GeLU m \<longleftrightarrow> m = fl_GeLU"
  by (cases m) (simp_all add: is_GeLU_def)

lemma walk_from_swap:
  assumes "\<And>m. m \<in> set ms \<Longrightarrow> m \<noteq> fl_GeLU \<Longrightarrow>
             fold (\<lambda>p t. replace p fl_ApproximateGeLU t) (walk is_GeLU m) m = swap_gelu m"
    and "container c" and "length pre = i"
  shows "fold (\<lambda>p t. replace p fl_ApproximateGeLU t) (walk_from is_GeLU i ms)
           (with_children c (pre @ ms)) = with_children c (pre @ map swap_gelu ms)"
  using assms
proof (induction ms arbitrary: pre i)
  case Nil
  then show ?case by simp
next
  case (Cons m ms)
  let ?R = "\<lambda>p t. replace p fl_ApproximateGeLU t"
  have step: "fold ?R ((if is_GeLU m then [[i]] else []) @ map ((#) i) (walk is_GeLU m))
                (with_children c (pre @ m # ms)) = with_children c ((pre @ [swap_gelu m]) @ ms)"
  proof (cases "is_GeLU m")
    case True
    then have m: "m = fl_GeLU" by (simp add: is_GeLU_iff)
    show ?thesis using Cons.prems(2) Cons.prems(3)[symmetric]
      by (simp add: m is_GeLU_def children_with_children with_children_twice)
  next
    case False
    have "fold ?R (map ((#) i) (walk is_GeLU m)) (with_children c (pre @ m # ms)) =
          with_children c ((pre @ m # ms)[i := fold ?R (walk is_GeLU m) ((pre @ m # ms) ! i)])"
      using Cons.prems(2,3) by (intro fold_replace_child) simp_all
    also have "\<dots> = with_children c ((pre @ [swap_gelu m]) @ ms)"
    proof -
      from False have "m \<noteq> fl_GeLU" by (simp add: is_GeLU_iff)
      with Cons.prems(1)[of m] Cons.prems(3)[symmetric] show ?thesis by simp
    qed
    finally show ?thesis using False by simp
  qed
  have "fold ?R (walk_from is_GeLU i (m # ms)) (with_children c (pre @ m # ms)) =
        fold ?R (walk_from is_GeLU (Suc i) ms) (with_children c ((pre @ [swap_gelu m]) @ ms))"
    using step by simp
  also have "\<dots> = with_children c ((pre @ [swap_gelu m]) @ map swap_gelu ms)"
    using Cons.prems by (intro Cons.IH) simp_all
  finally show ?case by simp
qed

lemma quick_gelu_pass_swap: "m \<noteq> fl_GeLU \<Longrightarrow> quick_gelu_pass m = swap_gelu m"
proof (induction m)
  case (fl_Chain ms)
  then have "\<And>m. m \<in> set ms \<Longrightarrow> m \<noteq> fl_GeLU \<Longrightarrow>
      fold (\<lambda>p t. replace p fl_ApproximateGeLU t) (walk is_GeLU m) m = swap_gelu m"
    by (simp add: quick_gelu_pass_def)
  from walk_from_swap[OF this, where c = "fl_Chain ms" and pre = "[]" and i = 0] show ?case
    by (simp add: quick_gelu_pass_def)
next
  case (fl_Sum ms)
  then have "\<And>m. m \<in> set ms \<Longrightarrow> m \<noteq> fl_GeLU \<Longrightarrow>
      fold (\<lambda>p t. replace p fl_ApproximateGeLU t) (walk is_GeLU m) m = swap_gelu m"
    by (simp add: quick_gelu_pass_def)
  from walk_from_swap[OF this, where c = "fl_Sum ms" and pre = "[]" and i = 0] show ?case
    by (simp add: quick_gelu_pass_def)
next
  case (fl_Residual ms)
  then have "\<And>m. m \<in> set ms \<Longrightarrow> m \<noteq> fl_GeLU \<Longrightarrow>
      fold (\<lambda>p t. replace p fl_ApproximateGeLU t) (walk is_GeLU m) m = swap_gelu m"
    by (simp add: quick_gelu_pass_def)
  from walk_from_swap[OF this, where c = "fl_Residual ms" and pre = "[]" and i = 0] show ?case
    by (simp add: quick_gelu_pass_def)
qed (simp_all add: quick_gelu_pass_def)

subsection \<open>The tree a construction returns\<close>

lemma TransformerLayer_eq:
  "TransformerLayer d f h eps =
     (if h \<noteq> 0 \<and> d mod h = 0 then Inr (layer_tree d f h eps False)
      else Inl InvalidConfiguration)"
  by (simp add: TransformerLayer_def SelfAttention_init_def layer_tree_def FeedForward_def
      activation_def)

lemma transformer_layers_eq:
  "transformer_layers n d f h eps =
     (if n = 0 \<or> (h \<noteq> 0 \<and> d mod h = 0) then Inr (replicate n (layer_tree d f h eps False))
      else Inl InvalidConfiguration)"
  by (induction n) (auto simp: TransformerLayer_eq)

lemma swap_layer_tree: "swap_gelu (layer_tree d f h eps False) = layer_tree d f h eps True"
  by (simp add: layer_tree_def activation_def)

lemma CLIPTextEncoder_eq:
  "CLIPTextEncoder a =
     (if num_layers a = 0 \<or> heads_divide a
      then Inr \<lparr> embedding_dim = embedding_dim a,
                 max_sequence_length = max_sequence_length a,
                 vocabulary_size = vocabulary_size a,
                 num_layers = num_layers a,
                 num_attention_heads = num_attention_heads a,
                 feedforward_dim = feedforward_dim a,
                 layer_norm_eps = layer_norm_eps a,
                 use_quick_gelu = use_quick_gelu a,
                 chain = encoder_tree a \<rparr>
      else Inl InvalidConfiguration)"
proof (cases "num_layers a = 0 \<or> heads_divide a")
  case False
  then show ?thesis
    by (auto simp add: CLIPTextEncoder_def transformer_layers_eq heads_divide_def)
next
  case True
  let ?built = "fl_Chain
       ([Tokenizer (the_tokenizer a), fl_Converter False,
         fl_Sum [fl_Embedding (vocabulary_size a) (embedding_dim a),
                 fl_Chain [fl_Lambda (max_sequence_length a),
                           fl_Embedding (max_sequence_length a) (embedding_dim a)]]]
        @ replicate (num_layers a)
            (layer_tree (embedding_dim a) (feedforward_dim a) (num_attention_heads a)
               (layer_norm_eps a) False)
        @ [fl_LayerNorm (embedding_dim a) (layer_norm_eps a)])"
  have swap: "quick_gelu_pass ?built = swap_gelu ?built"
    by (rule quick_gelu_pass_swap) simp
  have tree: "(if use_quick_gelu a then quick_gelu_pass ?built else ?built) = encoder_tree a"
    using swap by (simp add: encoder_tree_def swap_layer_tree)
  have layers: "transformer_layers (num_layers a) (embedding_dim a) (feedforward_dim a)
                  (num_attention_heads a) (layer_norm_eps a) =
                Inr (replicate (num_layers a)
                  (layer_tree (embedding_dim a) (feedforward_dim a) (num_attention_heads a)
                     (layer_norm_eps a) False))"
    using True by (auto simp add: transformer_layers_eq heads_divide_def)
  have "CLIPTextEncoder a =
          Inr \<lparr> embedding_dim = embedding_dim a,
                 max_sequence_length = max_sequence_length a,
                 vocabulary_size = vocabulary_size a,
                 num_layers = num_layers a,
                 num_attention_heads = num_attention_heads a,
                 feedforward_dim = feedforward_dim a,
                 layer_norm_eps = layer_norm_eps a,
                 use_quick_gelu = use_quick_gelu a,
                 chain = (if use_quick_gelu a then quick_gelu_pass ?built else ?built) \<rparr>"
    unfolding CLIPTextEncoder_def layers
    by (simp only: sum.case Let_def TokenEncoder_def PositionalEncoder_def the_tokenizer_def)
  then show ?thesis
    unfolding tree using True by simp
qed

lemma count_in_append: "count_in P (xs @ ys) = count_in P xs + count_in P ys"
  by (induction xs) simp_all

lemma count_in_replicate: "count_in P (replicate n m) = n * count_modules P m"
  by (induction n) simp_all

lemma count_GeLU_encoder_tree:
  "count_modules is_GeLU (encoder_tree a) = (if use_quick_gelu a then 0 else num_layers a)"
  by (simp add: encoder_tree_def layer_tree_def activation_def is_GeLU_def count_in_append
      count_in_replicate)

lemma count_ApproximateGeLU_encoder_tree:
  "count_modules is_ApproximateGeLU (encoder_tree a) =
     (if use_quick_gelu a then num_layers a else 0)"
  by (simp add: encoder_tree_def layer_tree_def activation_def is_ApproximateGeLU_def
      count_in_append count_in_replicate)

lemma tokenizer_of_encoder_tree:
  "chain enc = encoder_tree a \<Longrightarrow> tokenizer_of enc = Some (the_tokenizer a)"
  by (simp add: tokenizer_of_def encoder_tree_def)

subsection \<open>Defaults and presets\<close>

text \<open>
  C10. Constructing \<^verbatim>\<open>CLIPTextEncoder\<close> with the defaults of its signature succeeds and gives an
  encoder with embedding dimension 768, maximal sequence length 77, vocabulary size 49408,
  12 layers, 12 attention heads, feed-forward dimension 3072, layer-norm epsilon \<^verbatim>\<open>1e-5\<close>,
  exact GeLU in each of its 12 feed-forward blocks and no approximate GeLU, and a tokenizer it
  constructs itself with \<^verbatim>\<open>sequence_length\<close> equal to its maximal sequence length.
\<close>

theorem default_configuration:
  "(case CLIPTextEncoder default_args of
      Inl _ \<Rightarrow> False
    | Inr enc \<Rightarrow>
        embedding_dim enc = 768 \<and> max_sequence_length enc = 77 \<and>
        vocabulary_size enc = 49408 \<and> num_layers enc = 12 \<and>
        num_attention_heads enc = 12 \<and> feedforward_dim enc = 3072 \<and>
        layer_norm_eps enc = FloatLit 1 (- 5) \<and> use_quick_gelu enc = False \<and>
        tokenizer_of enc = Some (CLIPTokenizer (Some (max_sequence_length enc)) None) \<and>
        count_modules is_GeLU (chain enc) = 12 \<and>
        count_modules is_ApproximateGeLU (chain enc) = 0 \<and>
        chain enc =
          fl_Chain
            ([Tokenizer (CLIPTokenizer (Some 77) None), fl_Converter False,
              fl_Sum [TokenEncoder 49408 768, PositionalEncoder 77 768]]
             @ replicate 12 (layer_tree 768 3072 12 (FloatLit 1 (- 5)) False)
             @ [fl_LayerNorm 768 (FloatLit 1 (- 5))]))"
proof -
  have ok: "heads_divide default_args"
    by (simp add: heads_divide_def default_args_def)
  show ?thesis
    unfolding CLIPTextEncoder_eq
    by (simp add: ok count_GeLU_encoder_tree count_ApproximateGeLU_encoder_tree
        tokenizer_of_encoder_tree [where a = default_args])
      (simp add: default_args_def encoder_tree_def the_tokenizer_def TokenEncoder_def
        PositionalEncoder_def)
qed

lemma tokenizer_of_built:
  "tokenizer_of \<lparr> embedding_dim = d, max_sequence_length = m, vocabulary_size = v,
     num_layers = n, num_attention_heads = h, feedforward_dim = f, layer_norm_eps = e,
     use_quick_gelu = q, chain = encoder_tree a \<rparr> = Some (the_tokenizer a)"
  by (simp add: tokenizer_of_def encoder_tree_def)

lemma preset_L:
  "(case CLIPTextEncoderL of
      Inl _ \<Rightarrow> False
    | Inr enc \<Rightarrow>
        embedding_dim enc = 768 \<and> num_layers enc = 12 \<and> num_attention_heads enc = 12 \<and>
        feedforward_dim enc = 3072 \<and>
        count_modules is_GeLU (chain enc) = 0 \<and>
        count_modules is_ApproximateGeLU (chain enc) = 12 \<and>
        tokenizer_of enc = Some (CLIPTokenizer (Some 77) None))"
  unfolding CLIPTextEncoderL_def CLIPTextEncoder_eq
  by (simp add: heads_divide_def count_GeLU_encoder_tree count_ApproximateGeLU_encoder_tree
      tokenizer_of_built the_tokenizer_def default_args_def)

lemma preset_H:
  "(case CLIPTextEncoderH of
      Inl _ \<Rightarrow> False
    | Inr enc \<Rightarrow>
        embedding_dim enc = 1024 \<and> num_layers enc = 23 \<and> num_attention_heads enc = 16 \<and>
        feedforward_dim enc = 4096 \<and>
        count_modules is_GeLU (chain enc) = 23 \<and>
        count_modules is_ApproximateGeLU (chain enc) = 0 \<and>
        tokenizer_of enc = Some (CLIPTokenizer (Some 77) None))"
  unfolding CLIPTextEncoderH_def CLIPTextEncoder_eq
  by (simp add: heads_divide_def count_GeLU_encoder_tree count_ApproximateGeLU_encoder_tree
      tokenizer_of_built the_tokenizer_def default_args_def)

lemma preset_G:
  "(case CLIPTextEncoderG of
      Inl _ \<Rightarrow> False
    | Inr enc \<Rightarrow>
        embedding_dim enc = 1280 \<and> num_layers enc = 32 \<and> num_attention_heads enc = 20 \<and>
        feedforward_dim enc = 5120 \<and>
        count_modules is_GeLU (chain enc) = 32 \<and>
        count_modules is_ApproximateGeLU (chain enc) = 0 \<and>
        tokenizer_of enc = Some (CLIPTokenizer None (Some 0)))"
  unfolding CLIPTextEncoderG_def CLIPTextEncoder_eq Let_def
  by (simp add: heads_divide_def count_GeLU_encoder_tree count_ApproximateGeLU_encoder_tree
      tokenizer_of_built the_tokenizer_def default_args_def)

lemma pad_token_L: "\<not> pad_token_given CLIPTextEncoderL"
  unfolding CLIPTextEncoderL_def CLIPTextEncoder_eq pad_token_given_def
  by (simp add: heads_divide_def tokenizer_of_built the_tokenizer_def default_args_def)

lemma pad_token_H: "\<not> pad_token_given CLIPTextEncoderH"
  unfolding CLIPTextEncoderH_def CLIPTextEncoder_eq pad_token_given_def
  by (simp add: heads_divide_def tokenizer_of_built the_tokenizer_def default_args_def)

lemma pad_token_G: "pad_token_given CLIPTextEncoderG"
  unfolding CLIPTextEncoderG_def CLIPTextEncoder_eq pad_token_given_def Let_def
  by (simp add: heads_divide_def tokenizer_of_built the_tokenizer_def default_args_def)

text \<open>
  C4, as the claim states it, fails: it gives the 768-dimensional preset a tokenizer with a
  pad-token convention of its own and counts two such presets. In the source
  \<^verbatim>\<open>CLIPTextEncoderL\<close> passes no tokenizer, so the constructor builds the default one without
  a \<^verbatim>\<open>pad_token_id\<close>, and one preset, not two, constructs a tokenizer with a pad token.
\<close>

theorem presets_pad_token_counterexample:
  "\<not> pad_token_given CLIPTextEncoderL \<and>
   length (filter pad_token_given [CLIPTextEncoderL, CLIPTextEncoderH, CLIPTextEncoderG]) \<noteq> 2"
  by (simp add: pad_token_L pad_token_H pad_token_G)

text \<open>
  C4, amended. The three presets fix these hyperparameters: \<^verbatim>\<open>CLIPTextEncoderL\<close> has dimension
  768, 12 layers, 12 heads, approximate GeLU in every feed-forward block, and the default
  tokenizer \<^verbatim>\<open>CLIPTokenizer(sequence_length=77)\<close>; \<^verbatim>\<open>CLIPTextEncoderH\<close> has dimension 1024, 23
  layers, 16 heads, exact GeLU and the same default tokenizer; \<^verbatim>\<open>CLIPTextEncoderG\<close> has
  dimension 1280, 32 layers, 20 heads, exact GeLU and the tokenizer
  \<^verbatim>\<open>CLIPTokenizer(pad_token_id=0)\<close>. Exactly one preset, the last, constructs its tokenizer
  with a pad-token id.
\<close>

theorem presets:
  "(case CLIPTextEncoderL of
      Inl _ \<Rightarrow> False
    | Inr enc \<Rightarrow>
        embedding_dim enc = 768 \<and> num_layers enc = 12 \<and> num_attention_heads enc = 12 \<and>
        feedforward_dim enc = 3072 \<and>
        count_modules is_GeLU (chain enc) = 0 \<and>
        count_modules is_ApproximateGeLU (chain enc) = 12 \<and>
        tokenizer_of enc = Some (CLIPTokenizer (Some 77) None)) \<and>
   (case CLIPTextEncoderH of
      Inl _ \<Rightarrow> False
    | Inr enc \<Rightarrow>
        embedding_dim enc = 1024 \<and> num_layers enc = 23 \<and> num_attention_heads enc = 16 \<and>
        feedforward_dim enc = 4096 \<and>
        count_modules is_GeLU (chain enc) = 23 \<and>
        count_modules is_ApproximateGeLU (chain enc) = 0 \<and>
        tokenizer_of enc = Some (CLIPTokenizer (Some 77) None)) \<and>
   (case CLIPTextEncoderG of
      Inl _ \<Rightarrow> False
    | Inr enc \<Rightarrow>
        embedding_dim enc = 1280 \<and> num_layers enc = 32 \<and> num_attention_heads enc = 20 \<and>
        feedforward_dim enc = 5120 \<and>
        count_modules is_GeLU (chain enc) = 32 \<and>
        count_modules is_ApproximateGeLU (chain enc) = 0 \<and>
        tokenizer_of enc = Some (CLIPTokenizer None (Some 0))) \<and>
   filter pad_token_given [CLIPTextEncoderL, CLIPTextEncoderH, CLIPTextEncoderG] =
     [CLIPTextEncoderG]"
proof -
  have "filter pad_token_given [CLIPTextEncoderL, CLIPTextEncoderH, CLIPTextEncoderG] =
     [CLIPTextEncoderG]"
    by (simp add: pad_token_L pad_token_H pad_token_G)
  with preset_L preset_H preset_G show ?thesis by blast
qed

subsection \<open>Validation of the head count\<close>

text \<open>
  C6, as the claim states it, fails: the constructors of the source file check nothing
  themselves, and with \<^verbatim>\<open>num_layers = 0\<close> no attention layer is constructed, so an embedding
  dimension of 7 with 2 heads is accepted and an encoder is returned.
\<close>

theorem invalid_heads_accepted_counterexample:
  "\<not> num_attention_heads
        (default_args \<lparr> embedding_dim := 7, num_layers := 0, num_attention_heads := 2 \<rparr>)
      dvd embedding_dim
        (default_args \<lparr> embedding_dim := 7, num_layers := 0, num_attention_heads := 2 \<rparr>) \<and>
   (case CLIPTextEncoder
           (default_args \<lparr> embedding_dim := 7, num_layers := 0, num_attention_heads := 2 \<rparr>) of
      Inl _ \<Rightarrow> False
    | Inr enc \<Rightarrow> embedding_dim enc = 7 \<and> num_attention_heads enc = 2 \<and>
        chain enc = fl_Chain [Tokenizer (CLIPTokenizer (Some 77) None), fl_Converter False,
          fl_Sum [TokenEncoder 49408 7, PositionalEncoder 77 7],
          fl_LayerNorm 7 (FloatLit 1 (- 5))])"
  unfolding CLIPTextEncoder_eq
  by (simp add: encoder_tree_def the_tokenizer_def default_args_def TokenEncoder_def
      PositionalEncoder_def)

text \<open>
  C6, amended. A configuration with at least one layer whose embedding dimension is not
  divisible by its number of attention heads is rejected when the encoder is constructed:
  the construction of the first attention layer fails and no encoder is returned.
\<close>

theorem invalid_heads_rejected:
  "num_layers a \<noteq> 0 \<Longrightarrow> \<not> num_attention_heads a dvd embedding_dim a \<Longrightarrow>
   CLIPTextEncoder a = Inl InvalidConfiguration"
  unfolding CLIPTextEncoder_eq heads_divide_def by (auto simp: mod_eq_0_iff_dvd)

theorem invalid_heads_rejected_witness:
  "num_layers (default_args \<lparr> embedding_dim := 7, num_attention_heads := 2 \<rparr>) \<noteq> 0 \<and>
   \<not> num_attention_heads (default_args \<lparr> embedding_dim := 7, num_attention_heads := 2 \<rparr>)
        dvd embedding_dim (default_args \<lparr> embedding_dim := 7, num_attention_heads := 2 \<rparr>) \<and>
   CLIPTextEncoder (default_args \<lparr> embedding_dim := 7, num_attention_heads := 2 \<rparr>) =
     Inl InvalidConfiguration"
proof -
  have n: "num_layers (default_args \<lparr> embedding_dim := 7, num_attention_heads := 2 \<rparr>) \<noteq> 0"
    by (simp add: default_args_def)
  have d: "\<not> num_attention_heads (default_args \<lparr> embedding_dim := 7, num_attention_heads := 2 \<rparr>)
        dvd embedding_dim (default_args \<lparr> embedding_dim := 7, num_attention_heads := 2 \<rparr>)"
    by simp
  from n d invalid_heads_rejected [OF n d] show ?thesis by blast
qed

section \<open>Properties of the forward pass\<close>

subsection \<open>Adding tensors of matching shapes\<close>

lemma stretch_same: "length xs = n \<Longrightarrow> stretch n xs = xs"
  by (auto simp: stretch_def split: list.splits)

lemma stretch_single: "stretch n [x] = replicate n x"
  by (simp add: stretch_def)

lemma broadcast_same: "broadcast n n = Some n"
  by (simp add: broadcast_def)

lemma broadcast_one: "broadcast n (Suc 0) = Some n"
  by (simp add: broadcast_def)

lemma well_formedD: "well_formed g \<Longrightarrow> r \<in> set (rows g) \<Longrightarrow> length r = width g"
  by (simp add: well_formed_def list_all_iff)

lemma map2_stretch_rows:
  assumes "\<And>r. r \<in> set R \<Longrightarrow> length r = w" and "\<And>r. r \<in> set S \<Longrightarrow> length r = w"
  shows "map2 (\<lambda>r1 r2. map2 f (stretch w r1) (stretch w r2)) R S = map2 (map2 f) R S"
proof (rule map_cong [OF refl])
  fix x assume x: "x \<in> set (zip R S)"
  obtain r1 r2 where eq: "x = (r1, r2)" by (cases x)
  from x eq have "r1 \<in> set R" "r2 \<in> set S"
    by (auto dest: set_zip_leftD set_zip_rightD)
  with assms have "stretch w r1 = r1" "stretch w r2 = r2"
    by (simp_all add: stretch_same)
  then show "(case x of (r1, r2) \<Rightarrow> map2 f (stretch w r1) (stretch w r2)) =
             (case x of (r1, r2) \<Rightarrow> map2 f r1 r2)"
    by (simp add: eq)
qed

lemma grid_add_same:
  assumes "well_formed g1" "well_formed g2" "width g1 = width g2"
    "length (rows g1) = length (rows g2)"
  shows "grid_add f g1 g2 = Inr (Grid (width g1) (map2 (map2 f) (rows g1) (rows g2)))"
proof -
  have "map2 (\<lambda>r1 r2. map2 f (stretch (width g1) r1) (stretch (width g1) r2))
          (rows g1) (rows g2) = map2 (map2 f) (rows g1) (rows g2)"
    using assms by (intro map2_stretch_rows) (auto dest: well_formedD)
  then show ?thesis
    using assms by (simp add: grid_add_def broadcast_same stretch_same)
qed

lemma grid_add_row:
  assumes "well_formed g" "length r = width g"
  shows "grid_add f g (Grid (width g) [r]) =
           Inr (Grid (width g) (map (\<lambda>a. map2 f a r) (rows g)))"
proof -
  let ?B = "length (rows g)"
  have "map2 (\<lambda>r1 r2. map2 f (stretch (width g) r1) (stretch (width g) r2))
          (rows g) (replicate ?B r) = map2 (map2 f) (rows g) (replicate ?B r)"
    using assms by (intro map2_stretch_rows) (auto dest: well_formedD)
  also have "\<dots> = map (\<lambda>a. map2 f a r) (rows g)"
    by (induction "rows g") (simp_all add: zip_replicate2 map_fst_zip)
  finally show ?thesis
    using assms by (simp add: grid_add_def broadcast_same broadcast_one stretch_same stretch_single)
qed

subsection \<open>Shapes of the layer functions\<close>

lemma length_attend: "length (attend f c xs) = length xs"
  by (simp add: attend_def)

lemma well_formed_grid_map: "well_formed g \<Longrightarrow> well_formed (grid_map f g)"
  by (simp add: well_formed_def grid_map_def list_all_iff)

lemma width_grid_map: "width (grid_map f g) = width g"
  by (simp add: grid_map_def)

lemma length_rows_grid_map: "length (rows (grid_map f g)) = length (rows g)"
  by (simp add: grid_map_def)

lemma grid_map_grid_map: "grid_map f (grid_map h g) = grid_map (\<lambda>v. f (h v)) g"
  by (simp add: grid_map_def comp_def)

lemma layer_norm_shape:
  "width (layer_norm K p eps x) = width x"
  "length (rows (layer_norm K p eps x)) = length (rows x)"
  "well_formed x \<Longrightarrow> well_formed (layer_norm K p eps x)"
  by (simp_all add: layer_norm_def width_grid_map length_rows_grid_map well_formed_grid_map)

lemma feed_forward_shape:
  "width (feed_forward K p q x) = width x"
  "length (rows (feed_forward K p q x)) = length (rows x)"
  "well_formed x \<Longrightarrow> well_formed (feed_forward K p q x)"
  by (simp_all add: feed_forward_def width_grid_map length_rows_grid_map well_formed_grid_map)

lemma causal_self_attention_shape:
  "width (causal_self_attention K p h x) = width x"
  "length (rows (causal_self_attention K p h x)) = length (rows x)"
  "well_formed x \<Longrightarrow> well_formed (causal_self_attention K p h x)"
  by (simp_all add: causal_self_attention_def well_formed_def list_all_iff length_attend)

lemma residual_plus_shape:
  "width (residual_plus K x y) = width x"
  "length (rows y) = length (rows x) \<Longrightarrow> length (rows (residual_plus K x y)) = length (rows x)"
  by (simp_all add: residual_plus_def)

lemma well_formed_residual_plus:
  assumes "well_formed x" "well_formed y" "width y = width x"
  shows "well_formed (residual_plus K x y)"
proof -
  have "length (map2 (rt_add K) r s) = width x" if "(r, s) \<in> set (zip (rows x) (rows y))" for r s
  proof -
    from that have "r \<in> set (rows x)" "s \<in> set (rows y)"
      by (auto dest: set_zip_leftD set_zip_rightD)
    with assms show ?thesis by (simp add: well_formedD)
  qed
  then show ?thesis
    by (auto simp: residual_plus_def well_formed_def list_all_iff)
qed

subsection \<open>The forward pass of a transformer layer\<close>

lemma tensor_add_same:
  assumes "well_formed x" "well_formed y" "width y = width x"
    "length (rows y) = length (rows x)"
  shows "tensor_add K (Hidden d x) (Hidden d y) = Inr (Hidden d (residual_plus K x y))"
  using assms grid_add_same [of x y "rt_add K"]
  by (simp add: tensor_add_def broadcast_same residual_plus_def)

lemma forward_activation:
  "forward K p (activation quick) (Hidden d x) = Inr (Hidden d (grid_map (act K quick) x))"
  by (simp add: activation_def act_def)

lemma forward_attention_residual:
  assumes "well_formed x"
  shows "forward K p (fl_Residual [fl_LayerNorm d eps, fl_SelfAttention d h True]) (Hidden d x) =
           Inr (Hidden d (attention_block K p h eps x))"
proof -
  let ?n = "layer_norm K (p @ [0]) eps x"
  let ?s = "causal_self_attention K (p @ [1]) h ?n"
  have run: "run_chain K p 0 [fl_LayerNorm d eps, fl_SelfAttention d h True] (Hidden d x) =
               Inr (Hidden d ?s)"
    by (simp add: layer_norm_def causal_self_attention_def)
  have "tensor_add K (Hidden d x) (Hidden d ?s) = Inr (Hidden d (residual_plus K x ?s))"
    using assms
    by (intro tensor_add_same)
      (simp_all add: causal_self_attention_shape layer_norm_shape)
  then show ?thesis
    by (simp only: forward.simps run sum.case attention_block_def)
qed

lemma forward_feed_forward_residual:
  assumes "well_formed x"
  shows "forward K p (fl_Residual [fl_LayerNorm d eps,
             fl_Chain [fl_Linear d f, activation quick, fl_Linear f d]]) (Hidden d x) =
           Inr (Hidden d (feed_forward_block K p eps quick x))"
proof -
  let ?n = "layer_norm K (p @ [0]) eps x"
  let ?s = "feed_forward K (p @ [1]) quick ?n"
  have run: "run_chain K p 0 [fl_LayerNorm d eps,
               fl_Chain [fl_Linear d f, activation quick, fl_Linear f d]] (Hidden d x) =
               Inr (Hidden d ?s)"
    by (simp add: layer_norm_def feed_forward_def forward_activation grid_map_grid_map
        numeral_2_eq_2)
  have "tensor_add K (Hidden d x) (Hidden d ?s) = Inr (Hidden d (residual_plus K x ?s))"
    using assms
    by (intro tensor_add_same) (simp_all add: feed_forward_shape layer_norm_shape)
  then show ?thesis
    by (simp only: forward.simps run sum.case feed_forward_block_def)
qed

lemma attention_block_shape:
  "width (attention_block K p h eps x) = width x"
  "length (rows (attention_block K p h eps x)) = length (rows x)"
  "well_formed x \<Longrightarrow> well_formed (attention_block K p h eps x)"
  by (simp_all add: attention_block_def residual_plus_shape well_formed_residual_plus
      causal_self_attention_shape layer_norm_shape)

lemma feed_forward_block_shape:
  "width (feed_forward_block K p eps q x) = width x"
  "length (rows (feed_forward_block K p eps q x)) = length (rows x)"
  "well_formed x \<Longrightarrow> well_formed (feed_forward_block K p eps q x)"
  by (simp_all add: feed_forward_block_def residual_plus_shape well_formed_residual_plus
      feed_forward_shape layer_norm_shape)

lemma pre_norm_layer_shape:
  "width (pre_norm_layer K p h eps q x) = width x"
  "length (rows (pre_norm_layer K p h eps q x)) = length (rows x)"
  "well_formed x \<Longrightarrow> well_formed (pre_norm_layer K p h eps q x)"
  by (simp_all add: pre_norm_layer_def attention_block_shape feed_forward_block_shape)

lemma forward_layer_tree:
  assumes "well_formed x"
  shows "forward K p (layer_tree d f h eps quick) (Hidden d x) =
           Inr (Hidden d (pre_norm_layer K p h eps quick x))"
proof -
  have 1: "forward K (p @ [0]) (fl_Residual [fl_LayerNorm d eps, fl_SelfAttention d h True])
             (Hidden d x) = Inr (Hidden d (attention_block K (p @ [0]) h eps x))"
    using assms by (rule forward_attention_residual)
  have 2: "forward K (p @ [Suc 0]) (fl_Residual [fl_LayerNorm d eps,
             fl_Chain [fl_Linear d f, activation quick, fl_Linear f d]])
             (Hidden d (attention_block K (p @ [0]) h eps x)) =
           Inr (Hidden d (feed_forward_block K (p @ [Suc 0]) eps quick
                  (attention_block K (p @ [0]) h eps x)))"
    using assms by (intro forward_feed_forward_residual) (simp add: attention_block_shape)
  show ?thesis
    unfolding layer_tree_def pre_norm_layer_def
    by (simp only: forward.simps(10) run_chain.simps 1 2 sum.case One_nat_def)
qed

lemma run_layers_shape:
  "width (run_layers K i n h eps q x) = width x"
  "length (rows (run_layers K i n h eps q x)) = length (rows x)"
  "well_formed x \<Longrightarrow> well_formed (run_layers K i n h eps q x)"
  by (induction n arbitrary: i x) (simp_all add: pre_norm_layer_shape)

lemma run_chain_layers:
  assumes "well_formed x"
  shows "run_chain K [] i (replicate n (layer_tree d f h eps quick) @ rest) (Hidden d x) =
           run_chain K [] (i + n) rest (Hidden d (run_layers K i n h eps quick x))"
  using assms
proof (induction n arbitrary: i x)
  case 0
  then show ?case by simp
next
  case (Suc n)
  have "forward K ([] @ [i]) (layer_tree d f h eps quick) (Hidden d x) =
          Inr (Hidden d (pre_norm_layer K [i] h eps quick x))"
    using Suc.prems forward_layer_tree [of x K "[i]"] by simp
  then have "run_chain K [] i (replicate (Suc n) (layer_tree d f h eps quick) @ rest)
               (Hidden d x) =
             run_chain K [] (Suc i) (replicate n (layer_tree d f h eps quick) @ rest)
               (Hidden d (pre_norm_layer K [i] h eps quick x))"
    by simp
  also have "\<dots> = run_chain K [] (Suc i + n) rest
      (Hidden d (run_layers K (Suc i) n h eps quick (pre_norm_layer K [i] h eps quick x)))"
    using Suc.prems by (intro Suc.IH) (simp add: pre_norm_layer_shape)
  finally show ?case by simp
qed

subsection \<open>The forward pass of the embeddings\<close>

lemma forward_tokenizer:
  "forward K p (Tokenizer t) x =
     (case tokenized K t x of None \<Rightarrow> Inl TypeMismatch | Some g \<Rightarrow> Inr (Ids g))"
  by (cases t; cases x) (simp_all add: tokenized_def)

lemma length_pad_or_truncate: "length (pad_or_truncate n pad ids) = n"
  by (simp add: pad_or_truncate_def)

lemma length_encode: "length (encode K n t s) = tokenizer_length K n"
  by (simp add: encode_def length_pad_or_truncate)

lemma tokenized_shape:
  assumes "tokenized K (CLIPTokenizer n t) x = Some g"
  shows "well_formed g" and "width g = tokenizer_length K n"
  using assms
  by (cases x; auto simp: tokenized_def well_formed_def list_all_iff length_encode)+

lemma slice_position_ids:
  "slice_columns L (position_ids m) = Grid (min L m) [map int [0..<min L m]]"
proof -
  have "take L [0..<m] = [0..<min L m]"
    by (cases "L \<le> m") (simp_all add: take_upt min_def)
  then show ?thesis
    by (simp add: slice_columns_def position_ids_def take_map)
qed

lemma get_position_ids_eq:
  "shape1 x = Some L \<Longrightarrow>
   get_position_ids m x = Inr (Ids (Grid (min L m) [map int [0..<min L m]]))"
  by (simp add: get_position_ids_def slice_position_ids)

lemma in_table_positions: "k \<le> m \<Longrightarrow> in_table m (Grid w [map int [0..<k]])"
  by (simp add: in_table_def list_all_iff)

lemma forward_PositionalEncoder:
  assumes "shape1 x = Some L"
  shows "forward K p (PositionalEncoder m d) x =
           Inr (Hidden d (Grid (min L m) [map (rt_embedding K (p @ [1])) [0..<min L m]]))"
proof -
  have "forward K (p @ [0]) (fl_Lambda m) x = Inr (Ids (Grid (min L m) [map int [0..<min L m]]))"
    using assms by (simp add: get_position_ids_eq)
  moreover have "forward K (p @ [Suc 0]) (fl_Embedding m d)
                   (Ids (Grid (min L m) [map int [0..<min L m]])) =
                 Inr (Hidden d (Grid (min L m) [map (rt_embedding K (p @ [1])) [0..<min L m]]))"
    by (simp add: in_table_positions grid_map_def comp_def)
  ultimately show ?thesis
    unfolding PositionalEncoder_def
    by (simp only: forward.simps(10) run_chain.simps sum.case)
qed

lemma forward_embedding_sum:
  assumes "well_formed g" "in_table vs g" "width g \<le> m"
  shows "forward K [2] (fl_Sum [fl_Embedding vs d, fl_Chain [fl_Lambda m, fl_Embedding m d]])
           (Ids g) = Inr (Hidden d (embed K g))"
proof -
  let ?tok = "grid_map (\<lambda>t. rt_embedding K [2, 0] (nat t)) g"
  let ?pos = "map (rt_embedding K [2, 1, 1]) [0..<width g]"
  have tok: "forward K ([2] @ [0]) (fl_Embedding vs d) (Ids g) = Inr (Hidden d ?tok)"
    using assms by simp
  have "forward K ([2] @ [1]) (PositionalEncoder m d) (Ids g) =
          Inr (Hidden d (Grid (min (width g) m)
                 [map (rt_embedding K (([2] @ [1]) @ [1])) [0..<min (width g) m]]))"
    by (rule forward_PositionalEncoder) (simp add: shape1_def)
  then have pos: "forward K ([2] @ [1]) (fl_Chain [fl_Lambda m, fl_Embedding m d]) (Ids g) =
          Inr (Hidden d (Grid (width ?tok) [?pos]))"
    using assms by (simp add: PositionalEncoder_def min_def width_grid_map)
  have "grid_add (rt_add K) ?tok (Grid (width ?tok) [?pos]) =
          Inr (Grid (width ?tok) (map (\<lambda>a. map2 (rt_add K) a ?pos) (rows ?tok)))"
    using assms by (intro grid_add_row) (simp_all add: well_formed_grid_map width_grid_map)
  then have add: "tensor_add K (Hidden d ?tok) (Hidden d (Grid (width ?tok) [?pos])) =
          Inr (Hidden d (embed K g))"
    by (simp add: tensor_add_def broadcast_same embed_def grid_map_def comp_def)
  show ?thesis
    by (simp only: forward.simps(13) run_sum.simps tok pos add sum.case)
qed

subsection \<open>The forward pass of an encoder\<close>

lemma embed_shape:
  "width (embed K g) = width g"
  "length (rows (embed K g)) = length (rows g)"
  "well_formed g \<Longrightarrow> well_formed (embed K g)"
  by (auto simp: embed_def well_formed_def list_all_iff)

lemma forward_encoder_tree:
  assumes tok: "tokenized K (the_tokenizer a) x = Some g"
    and tab: "in_table (vocabulary_size a) g"
    and len: "width g \<le> max_sequence_length a"
  shows "forward K [] (encoder_tree a) x = Inr (Hidden (embedding_dim a) (encoder_fn K a g))"
proof -
  let ?d = "embedding_dim a" and ?n = "num_layers a"
  let ?layer = "layer_tree ?d (feedforward_dim a) (num_attention_heads a) (layer_norm_eps a)
                  (use_quick_gelu a)"
  let ?sum = "fl_Sum [fl_Embedding (vocabulary_size a) ?d,
                 fl_Chain [fl_Lambda (max_sequence_length a),
                           fl_Embedding (max_sequence_length a) ?d]]"
  let ?ln = "fl_LayerNorm ?d (layer_norm_eps a)"
  obtain n t where t: "the_tokenizer a = CLIPTokenizer n t"
    by (cases "the_tokenizer a")
  have wf: "well_formed g"
    using tok tokenized_shape(1) unfolding t by blast
  have 0: "forward K [0] (Tokenizer (the_tokenizer a)) x = Inr (Ids g)"
    by (simp add: forward_tokenizer tok)
  have 1: "forward K [Suc 0] (fl_Converter False) (Ids g) = Inr (Ids g)"
    by simp
  have 2: "forward K [Suc (Suc 0)] ?sum (Ids g) = Inr (Hidden ?d (embed K g))"
    using forward_embedding_sum [OF wf tab len, of K ?d] by (simp add: numeral_2_eq_2)
  have 3: "run_chain K [] (Suc (Suc (Suc 0))) (replicate ?n ?layer @ [?ln])
             (Hidden ?d (embed K g)) =
           run_chain K [] (3 + ?n) [?ln]
             (Hidden ?d (run_layers K 3 ?n (num_attention_heads a) (layer_norm_eps a)
                (use_quick_gelu a) (embed K g)))"
    using run_chain_layers [of "embed K g" K 3 ?n ?d] wf
    by (simp add: embed_shape numeral_3_eq_3)
  have 4: "run_chain K [] (3 + ?n) [?ln]
             (Hidden ?d (run_layers K 3 ?n (num_attention_heads a) (layer_norm_eps a)
                (use_quick_gelu a) (embed K g))) =
           Inr (Hidden ?d (encoder_fn K a g))"
    by (simp add: encoder_fn_def layer_norm_def)
  have "forward K [] (encoder_tree a) x =
          run_chain K [] 0 (Tokenizer (the_tokenizer a) # fl_Converter False # ?sum #
             (replicate ?n ?layer @ [?ln])) x"
    by (simp add: encoder_tree_def)
  also have "\<dots> = run_chain K [] (Suc (Suc (Suc 0))) (replicate ?n ?layer @ [?ln])
             (Hidden ?d (embed K g))"
    by (simp only: run_chain.simps(2) append_Nil 0 1 2 sum.case)
  also note 3
  also note 4
  finally show ?thesis .
qed

lemma encoder_fn_shape:
  "width (encoder_fn K a g) = width g"
  "length (rows (encoder_fn K a g)) = length (rows g)"
  "well_formed g \<Longrightarrow> well_formed (encoder_fn K a g)"
  by (simp_all add: encoder_fn_def layer_norm_shape run_layers_shape embed_shape)

lemma chain_of_encoder:
  "CLIPTextEncoder a = Inr enc \<Longrightarrow> chain enc = encoder_tree a"
  by (auto simp: CLIPTextEncoder_eq split: if_splits)

lemma call_encoder:
  assumes "CLIPTextEncoder a = Inr enc"
    and "tokenized K (the_tokenizer a) x = Some g"
    and "in_table (vocabulary_size a) g"
    and "width g \<le> max_sequence_length a"
  shows "call K enc x = Inr (Hidden (embedding_dim a) (encoder_fn K a g))"
  using assms by (simp add: call_def chain_of_encoder forward_encoder_tree)

section \<open>The claims about the forward pass\<close>

subsection \<open>PositionalEncoder\<close>

text \<open>
  C5. For an input of sequence length \<open>L\<close> at most \<^verbatim>\<open>max_sequence_length\<close>, the output of a
  PositionalEncoder is one sequence holding the first \<open>L\<close> rows of its full embedding table,
  the rows of positions \<open>0 .. L - 1\<close>, and any other input of the same sequence length gives
  the same output: only the shape of the input is read.
\<close>

theorem positional_encoder_rows:
  assumes "shape1 x = Some L" and "L \<le> m"
  shows "forward K p (PositionalEncoder m d) x =
           Inr (Hidden d (Grid L [take L (map (rt_embedding K (p @ [1])) [0..<m])])) \<and>
         (shape1 y = Some L \<longrightarrow>
            forward K p (PositionalEncoder m d) y = forward K p (PositionalEncoder m d) x)"
proof -
  have "take L (map (rt_embedding K (p @ [1])) [0..<m]) =
          map (rt_embedding K (p @ [1])) [0..<L]"
    using assms(2) by (simp add: take_map take_upt)
  then show ?thesis
    using assms by (simp add: forward_PositionalEncoder min_def)
qed

theorem positional_encoder_rows_witness:
  "shape1 (Ids (Grid 2 [[7, 9]]) :: nat data) = Some 2 \<and> (2 :: nat) \<le> 4 \<and>
   forward example_runtime [] (PositionalEncoder 4 1) (Ids (Grid 2 [[7, 9]])) =
     Inr (Hidden 1 (Grid 2 [[1, 2]])) \<and>
   forward example_runtime [] (PositionalEncoder 4 1) (Ids (Grid 2 [[1, 1]])) =
     forward example_runtime [] (PositionalEncoder 4 1) (Ids (Grid 2 [[7, 9]]))"
proof -
  have x: "shape1 (Ids (Grid 2 [[7, 9]]) :: nat data) = Some 2"
    by (simp add: shape1_def)
  have y: "shape1 (Ids (Grid 2 [[1, 1]]) :: nat data) = Some 2"
    by (simp add: shape1_def)
  have le: "(2 :: nat) \<le> 4"
    by simp
  have val: "take 2 (map (rt_embedding example_runtime ([] @ [1])) [0..<4]) = [1, 2]"
    by code_simp
  from positional_encoder_rows [OF x le, of example_runtime "[]" 1 "Ids (Grid 2 [[1, 1]])"]
  show ?thesis
    unfolding val using x y le by blast
qed




subsection \<open>TransformerLayer\<close>

text \<open>
  C1. A constructed TransformerLayer is a chain of exactly two residual blocks, the first
  holding a LayerNorm followed by causal self-attention with \<^verbatim>\<open>num_attention_heads\<close> heads,
  the second a LayerNorm followed by the FeedForward. On every hidden state \<open>x\<close> it computes
  \<open>x1 = x + SelfAttention(LayerNorm(x))\<close> and returns \<open>x1 + FeedForward(LayerNorm(x1))\<close>:
  each normalisation is applied to the input of its branch, before the transform, and
  nothing is normalised after a residual sum.
\<close>

theorem transformer_layer_pre_norm:
  assumes "TransformerLayer d f h eps = Inr layer" and "well_formed x"
  shows "layer =
           fl_Chain
             [fl_Residual [fl_LayerNorm d eps, fl_SelfAttention d h True],
              fl_Residual [fl_LayerNorm d eps, FeedForward d f]] \<and>
         forward K p layer (Hidden d x) =
           Inr (Hidden d
             (let x1 = residual_plus K x
                         (causal_self_attention K (p @ [0, 1]) h
                            (layer_norm K (p @ [0, 0]) eps x))
              in residual_plus K x1
                   (feed_forward K (p @ [1, 1]) False (layer_norm K (p @ [1, 0]) eps x1))))"
proof -
  from assms(1) have layer: "layer = layer_tree d f h eps False"
    by (simp add: TransformerLayer_eq split: if_splits)
  have "forward K p layer (Hidden d x) = Inr (Hidden d (pre_norm_layer K p h eps False x))"
    unfolding layer using assms(2) by (rule forward_layer_tree)
  then show ?thesis
    by (simp add: layer layer_tree_def FeedForward_def activation_def pre_norm_layer_def
        attention_block_def feed_forward_block_def Let_def)
qed

theorem transformer_layer_pre_norm_witness:
  "TransformerLayer 4 8 2 (FloatLit 1 (- 5)) = Inr (layer_tree 4 8 2 (FloatLit 1 (- 5)) False) \<and>
   well_formed (Grid 2 [[1, 2 :: nat]]) \<and>
   forward example_runtime [] (layer_tree 4 8 2 (FloatLit 1 (- 5)) False)
     (Hidden 4 (Grid 2 [[1, 2]])) = Inr (Hidden 4 (Grid 2 [[29, 54]]))"
proof -
  have l: "TransformerLayer 4 8 2 (FloatLit 1 (- 5)) =
             Inr (layer_tree 4 8 2 (FloatLit 1 (- 5)) False)"
    by (simp add: TransformerLayer_eq)
  have w: "well_formed (Grid 2 [[1, 2 :: nat]])"
    by (simp add: well_formed_def)
  have val: "(let x1 = residual_plus example_runtime (Grid 2 [[1, 2]])
                         (causal_self_attention example_runtime ([] @ [0, 1]) 2
                            (layer_norm example_runtime ([] @ [0, 0]) (FloatLit 1 (- 5))
                               (Grid 2 [[1, 2]])))
              in residual_plus example_runtime x1
                   (feed_forward example_runtime ([] @ [1, 1]) False
                      (layer_norm example_runtime ([] @ [1, 0]) (FloatLit 1 (- 5)) x1))) =
             Grid 2 [[29, 54]]"
    by code_simp
  from transformer_layer_pre_norm [OF l w, of example_runtime "[]"] l w
  show ?thesis unfolding val by blast
qed

subsection \<open>Shapes\<close>





lemma example_encoder_constructed: "CLIPTextEncoder example_args = Inr example_encoder"
  by (simp add: CLIPTextEncoder_eq heads_divide_def example_args_def example_encoder_def)





subsection \<open>Causal masking\<close>

lemma take_attend: "take n (attend f True xs) = attend f True (take n xs)"
proof -
  have "take n (attend f True xs) =
          map (\<lambda>i. f (xs ! i) (take (Suc i) xs)) [0..<min n (length xs)]"
    by (cases "n \<le> length xs") (simp_all add: attend_def take_map take_upt min_def)
  also have "\<dots> = map (\<lambda>i. f (take n xs ! i) (take (Suc i) (take n xs)))
                      [0..<min n (length xs)]"
    by (rule map_cong) (auto simp: min_def split: if_splits)
  also have "\<dots> = attend f True (take n xs)"
    by (simp add: attend_def min.commute)
  finally show ?thesis .
qed


lemma take_map2: "take n (map2 f xs ys) = map2 f (take n xs) (take n ys)"
  by (simp add: take_map take_zip)


lemma prefix_grid_map: "prefix n (grid_map f g) = map (map f) (prefix n g)"
  by (simp add: prefix_def grid_map_def take_map)


lemma prefix_layer_norm:
  "prefix n (layer_norm K p eps x) = map (map (rt_layer_norm K p eps)) (prefix n x)"
  by (simp add: layer_norm_def prefix_grid_map)


lemma prefix_feed_forward:
  "prefix n (feed_forward K p q x) =
     map (map (\<lambda>v. rt_linear K (p @ [2]) (act K q (rt_linear K (p @ [0]) v)))) (prefix n x)"
  by (simp add: feed_forward_def prefix_grid_map)


lemma prefix_causal_self_attention:
  "prefix n (causal_self_attention K p h x) =
     map (attend (rt_attention K p h) True) (prefix n x)"
  by (simp add: prefix_def causal_self_attention_def take_attend)


lemma prefix_residual_plus:
  "prefix n (residual_plus K x y) = map2 (map2 (rt_add K)) (prefix n x) (prefix n y)"
proof -
  have "map (take n) (map2 (map2 (rt_add K)) R S) =
          map2 (map2 (rt_add K)) (map (take n) R) (map (take n) S)" for R S
  proof (induction R arbitrary: S)
    case Nil
    then show ?case by simp
  next
    case (Cons r R)
    then show ?case by (cases S) (simp_all add: take_map2)
  qed
  then show ?thesis
    by (simp add: prefix_def residual_plus_def)
qed

lemma prefix_cong_layer_norm:
  "prefix n x = prefix n y \<Longrightarrow>
   prefix n (layer_norm K p eps x) = prefix n (layer_norm K p eps y)"
  by (simp only: prefix_layer_norm)

lemma prefix_cong_feed_forward:
  "prefix n x = prefix n y \<Longrightarrow>
   prefix n (feed_forward K p q x) = prefix n (feed_forward K p q y)"
  by (simp only: prefix_feed_forward)

lemma prefix_cong_causal_self_attention:
  "prefix n x = prefix n y \<Longrightarrow>
   prefix n (causal_self_attention K p h x) = prefix n (causal_self_attention K p h y)"
  by (simp only: prefix_causal_self_attention)

lemma prefix_cong_residual_plus:
  "prefix n x = prefix n x' \<Longrightarrow> prefix n y = prefix n y' \<Longrightarrow>
   prefix n (residual_plus K x y) = prefix n (residual_plus K x' y')"
  by (simp only: prefix_residual_plus)

lemma prefix_pre_norm_layer:
  assumes "prefix n x = prefix n y"
  shows "prefix n (pre_norm_layer K p h eps q x) = prefix n (pre_norm_layer K p h eps q y)"
proof -
  have a: "prefix n (attention_block K (p @ [0]) h eps x) =
             prefix n (attention_block K (p @ [0]) h eps y)"
    unfolding attention_block_def
    by (intro prefix_cong_residual_plus prefix_cong_causal_self_attention
        prefix_cong_layer_norm assms)
  show ?thesis
    unfolding pre_norm_layer_def feed_forward_block_def
    by (intro prefix_cong_residual_plus prefix_cong_feed_forward prefix_cong_layer_norm a)
qed

lemma prefix_run_layers:
  "prefix n x = prefix n y \<Longrightarrow>
   prefix n (run_layers K i k h eps q x) = prefix n (run_layers K i k h eps q y)"
proof (induction k arbitrary: i x y)
  case 0
  then show ?case by simp
next
  case (Suc k)
  from Suc.prems have "prefix n (pre_norm_layer K [i] h eps q x) =
                       prefix n (pre_norm_layer K [i] h eps q y)"
    by (rule prefix_pre_norm_layer)
  then have "prefix n (run_layers K (Suc i) k h eps q (pre_norm_layer K [i] h eps q x)) =
             prefix n (run_layers K (Suc i) k h eps q (pre_norm_layer K [i] h eps q y))"
    by (rule Suc.IH)
  then show ?case by (simp only: run_layers.simps)
qed

lemma prefix_embed:
  assumes "prefix n g1 = prefix n g2" and "width g1 = width g2"
  shows "prefix n (embed K g1) = prefix n (embed K g2)"
proof -
  have "prefix n (embed K g) =
          map (\<lambda>r. map2 (rt_add K) (map (\<lambda>t. rt_embedding K [2, 0] (nat t)) r)
                       (take n (map (rt_embedding K [2, 1, 1]) [0..<width g])))
              (prefix n g)" for g
    by (simp add: prefix_def embed_def take_map take_zip comp_def)
  then have "prefix n (embed K g1) =
          map (\<lambda>r. map2 (rt_add K) (map (\<lambda>t. rt_embedding K [2, 0] (nat t)) r)
                       (take n (map (rt_embedding K [2, 1, 1]) [0..<width g1])))
              (prefix n g1)"
       and "prefix n (embed K g2) =
          map (\<lambda>r. map2 (rt_add K) (map (\<lambda>t. rt_embedding K [2, 0] (nat t)) r)
                       (take n (map (rt_embedding K [2, 1, 1]) [0..<width g2])))
              (prefix n g2)"
    by blast+
  then show ?thesis
    by (simp only: assms)
qed


lemma prefix_encoder_fn:
  assumes "prefix n g1 = prefix n g2" and "width g1 = width g2"
  shows "prefix n (encoder_fn K a g1) = prefix n (encoder_fn K a g2)"
  unfolding encoder_fn_def
  by (intro prefix_cong_layer_norm prefix_run_layers prefix_embed assms)

lemma prefix_nth:
  assumes "prefix (Suc i) y1 = prefix (Suc i) y2" and "b < length (rows y1)"
  shows "rows y1 ! b ! i = rows y2 ! b ! i"
proof -
  from assms(1) have len: "length (rows y1) = length (rows y2)"
    unfolding prefix_def by (rule map_eq_imp_length_eq)
  from assms have "map (take (Suc i)) (rows y1) ! b = map (take (Suc i)) (rows y2) ! b"
    by (simp add: prefix_def)
  with assms(2) len have "take (Suc i) (rows y1 ! b) = take (Suc i) (rows y2 ! b)"
    by simp
  then have "take (Suc i) (rows y1 ! b) ! i = take (Suc i) (rows y2 ! b) ! i"
    by simp
  then show ?thesis by simp
qed

text \<open>
  C2. Take a constructed encoder and two inputs (texts or batches of texts) whose token
  sequences have the ids of the vocabulary, fit \<^verbatim>\<open>max_sequence_length\<close>, and agree at every
  position up to and including \<open>i\<close>. Then the encoder returns a hidden state for both, and
  the two outputs agree at every position up to and including \<open>i\<close>, whatever the tokens at
  later positions are: in every sequence of the batch the output embedding at position \<open>i\<close>
  is the same.
\<close>

theorem causal_masking:
  assumes "CLIPTextEncoder a = Inr enc"
    and "tokenized K (the_tokenizer a) x1 = Some g1"
    and "tokenized K (the_tokenizer a) x2 = Some g2"
    and "in_table (vocabulary_size a) g1" and "in_table (vocabulary_size a) g2"
    and "width g1 \<le> max_sequence_length a"
    and "prefix (Suc i) g1 = prefix (Suc i) g2"
  shows "\<exists>y1 y2.
           call K enc x1 = Inr (Hidden (embedding_dim a) y1) \<and>
           call K enc x2 = Inr (Hidden (embedding_dim a) y2) \<and>
           prefix (Suc i) y1 = prefix (Suc i) y2 \<and>
           length (rows y1) = length (rows g1) \<and>
           (\<forall>b < length (rows g1). rows y1 ! b ! i = rows y2 ! b ! i)"
proof -
  obtain n t where t: "the_tokenizer a = CLIPTokenizer n t"
    by (cases "the_tokenizer a")
  have w: "width g1 = width g2"
    using assms(2,3) tokenized_shape(2) unfolding t by metis
  have 1: "call K enc x1 = Inr (Hidden (embedding_dim a) (encoder_fn K a g1))"
    using assms by (intro call_encoder) simp_all
  have 2: "call K enc x2 = Inr (Hidden (embedding_dim a) (encoder_fn K a g2))"
    using assms w by (intro call_encoder) simp_all
  have 3: "prefix (Suc i) (encoder_fn K a g1) = prefix (Suc i) (encoder_fn K a g2)"
    using assms(7) w by (rule prefix_encoder_fn)
  have 4: "length (rows (encoder_fn K a g1)) = length (rows g1)"
    by (simp add: encoder_fn_shape)
  have 5: "\<forall>b < length (rows g1).
             rows (encoder_fn K a g1) ! b ! i = rows (encoder_fn K a g2) ! b ! i"
    using prefix_nth [OF 3] 4 by simp
  from 1 2 3 4 5 show ?thesis by blast
qed

theorem causal_masking_witness:
  "CLIPTextEncoder example_args = Inr example_encoder \<and>
   tokenized example_runtime (the_tokenizer example_args) (Str ''ab'') =
     Some (Grid 3 [[97, 98, 0]]) \<and>
   tokenized example_runtime (the_tokenizer example_args) (Str ''ac'') =
     Some (Grid 3 [[97, 99, 0]]) \<and>
   in_table (vocabulary_size example_args) (Grid 3 [[97, 98, 0]]) \<and>
   in_table (vocabulary_size example_args) (Grid 3 [[97, 99, 0]]) \<and>
   width (Grid 3 [[97, 98, 0 :: int]]) \<le> max_sequence_length example_args \<and>
   prefix (Suc 0) (Grid 3 [[97, 98, 0 :: int]]) = prefix (Suc 0) (Grid 3 [[97, 99, 0]]) \<and>
   (\<exists>y1 y2.
      call example_runtime example_encoder (Str ''ab'') =
        Inr (Hidden (embedding_dim example_args) y1) \<and>
      call example_runtime example_encoder (Str ''ac'') =
        Inr (Hidden (embedding_dim example_args) y2) \<and>
      prefix (Suc 0) y1 = prefix (Suc 0) y2 \<and>
      length (rows y1) = length (rows (Grid 3 [[97, 98, 0 :: int]])) \<and>
      (\<forall>b < length (rows (Grid 3 [[97, 98, 0 :: int]])). rows y1 ! b ! 0 = rows y2 ! b ! 0))"
proof -
  have t1: "tokenized example_runtime (the_tokenizer example_args) (Str ''ab'') =
              Some (Grid 3 [[97, 98, 0]])"
    by code_simp
  have t2: "tokenized example_runtime (the_tokenizer example_args) (Str ''ac'') =
              Some (Grid 3 [[97, 99, 0]])"
    by code_simp
  have v1: "in_table (vocabulary_size example_args) (Grid 3 [[97, 98, 0]])"
    by (simp add: in_table_def example_args_def)
  have v2: "in_table (vocabulary_size example_args) (Grid 3 [[97, 99, 0]])"
    by (simp add: in_table_def example_args_def)
  have w: "width (Grid 3 [[97, 98, 0 :: int]]) \<le> max_sequence_length example_args"
    by (simp add: example_args_def)
  have p: "prefix (Suc 0) (Grid 3 [[97, 98, 0 :: int]]) = prefix (Suc 0) (Grid 3 [[97, 99, 0]])"
    by (simp add: prefix_def)
  from causal_masking [OF example_encoder_constructed t1 t2 v1 v2 w p]
    example_encoder_constructed t1 t2 v1 v2 w p
  show ?thesis by blast
qed

subsection \<open>The rewrite pass and the layers it leaves alone\<close>

lemma children_swap_gelu: "children (swap_gelu m) = map swap_gelu (children m)"
  by (cases m) simp_all

lemma module_at_swap_gelu:
  "module_at p (swap_gelu m) = map_option swap_gelu (module_at p m)"
  by (induction p arbitrary: m) (simp_all add: children_swap_gelu)

lemma count_in_zero: "count_in P ms = 0 \<longleftrightarrow> (\<forall>m \<in> set ms. count_modules P m = 0)"
  by (induction ms) simp_all

lemma swap_gelu_without_GeLU: "count_modules is_GeLU m = 0 \<Longrightarrow> swap_gelu m = m"
proof (induction m)
  case (fl_Chain ms)
  then have "\<And>m. m \<in> set ms \<Longrightarrow> swap_gelu m = m"
    by (simp add: count_in_zero)
  then show ?case by (simp add: map_idI)
next
  case (fl_Sum ms)
  then have "\<And>m. m \<in> set ms \<Longrightarrow> swap_gelu m = m"
    by (simp add: count_in_zero)
  then show ?case by (simp add: map_idI)
next
  case (fl_Residual ms)
  then have "\<And>m. m \<in> set ms \<Longrightarrow> swap_gelu m = m"
    by (simp add: count_in_zero)
  then show ?case by (simp add: map_idI)
qed (simp_all add: is_GeLU_def)

lemma swap_encoder_tree:
  "swap_gelu (encoder_tree (a\<lparr>use_quick_gelu := False\<rparr>)) =
     encoder_tree (a\<lparr>use_quick_gelu := True\<rparr>)"
  by (simp add: encoder_tree_def the_tokenizer_def swap_layer_tree split: option.split)

lemma count_quick_tree:
  "count_modules is_GeLU (encoder_tree (a\<lparr>use_quick_gelu := True\<rparr>)) = 0"
  by (simp add: count_GeLU_encoder_tree)

lemma count_quick_tree':
  "count_modules is_ApproximateGeLU (encoder_tree (a\<lparr>use_quick_gelu := True\<rparr>)) =
   count_modules is_GeLU (encoder_tree (a\<lparr>use_quick_gelu := False\<rparr>))"
  by (simp add: count_GeLU_encoder_tree count_ApproximateGeLU_encoder_tree)

text \<open>
  C3. Take a configuration that constructs an encoder with \<^verbatim>\<open>use_quick_gelu = False\<close>. With
  \<^verbatim>\<open>use_quick_gelu = True\<close> the construction succeeds too, and its result is the first
  encoder with the flag set and with every exact GeLU of the tree replaced by an approximate
  GeLU: no exact GeLU is left, there are as many approximate ones as there were exact ones,
  and at every path of the tree stands the module of the first tree, rewritten inside in the
  same way. So a module that holds no exact GeLU is the same module at the same path in both
  trees, and with the same parameters it returns the same output on the same input.
\<close>

theorem quick_gelu_rewrite:
  assumes "CLIPTextEncoder (a\<lparr>use_quick_gelu := False\<rparr>) = Inr exact"
  shows "\<exists>quick.
           CLIPTextEncoder (a\<lparr>use_quick_gelu := True\<rparr>) = Inr quick \<and>
           quick = exact\<lparr>use_quick_gelu := True, chain := swap_gelu (chain exact)\<rparr> \<and>
           count_modules is_GeLU (chain quick) = 0 \<and>
           count_modules is_ApproximateGeLU (chain quick) =
             count_modules is_GeLU (chain exact) \<and>
           module_at p (chain quick) = map_option swap_gelu (module_at p (chain exact)) \<and>
           (module_at p (chain exact) = Some m \<and> count_modules is_GeLU m = 0 \<longrightarrow>
              module_at p (chain quick) = Some m \<and>
              layer_output K (chain quick) p x = layer_output K (chain exact) p x)"
proof -
  let ?e = "a\<lparr>use_quick_gelu := False\<rparr>" and ?q = "a\<lparr>use_quick_gelu := True\<rparr>"
  let ?quick = "\<lparr> embedding_dim = embedding_dim a,
                 max_sequence_length = max_sequence_length a,
                 vocabulary_size = vocabulary_size a,
                 num_layers = num_layers a,
                 num_attention_heads = num_attention_heads a,
                 feedforward_dim = feedforward_dim a,
                 layer_norm_eps = layer_norm_eps a,
                 use_quick_gelu = True,
                 chain = encoder_tree ?q \<rparr>"
  from assms have ok: "num_layers a = 0 \<or> heads_divide a"
    by (auto simp: CLIPTextEncoder_eq heads_divide_def split: if_splits)
  from assms have exact: "exact = \<lparr> embedding_dim = embedding_dim a,
                 max_sequence_length = max_sequence_length a,
                 vocabulary_size = vocabulary_size a,
                 num_layers = num_layers a,
                 num_attention_heads = num_attention_heads a,
                 feedforward_dim = feedforward_dim a,
                 layer_norm_eps = layer_norm_eps a,
                 use_quick_gelu = False,
                 chain = encoder_tree ?e \<rparr>"
    by (auto simp: CLIPTextEncoder_eq split: if_splits)
  have tree: "chain exact = encoder_tree ?e"
    by (simp add: exact)
  have quick: "chain ?quick = encoder_tree ?q"
    by simp
  have 0: "?quick = exact\<lparr>use_quick_gelu := True, chain := swap_gelu (chain exact)\<rparr>"
    by (simp add: exact swap_encoder_tree)
  have 1: "CLIPTextEncoder ?q = Inr ?quick"
    using ok by (auto simp: CLIPTextEncoder_eq heads_divide_def)
  have 2: "count_modules is_GeLU (chain ?quick) = 0"
    unfolding quick by (rule count_quick_tree)
  have 3: "count_modules is_ApproximateGeLU (chain ?quick) = count_modules is_GeLU (chain exact)"
    unfolding quick tree by (rule count_quick_tree')
  have 4: "module_at p (chain ?quick) = map_option swap_gelu (module_at p (chain exact))"
    unfolding quick tree
    by (simp only: module_at_swap_gelu [symmetric] swap_encoder_tree)
  have 5: "module_at p (chain ?quick) = Some m \<and>
           layer_output K (chain ?quick) p x = layer_output K (chain exact) p x"
    if "module_at p (chain exact) = Some m" "count_modules is_GeLU m = 0"
  proof -
    from that have "module_at p (chain ?quick) = Some m"
      unfolding 4 by (simp add: swap_gelu_without_GeLU)
    with that(1) show ?thesis
      by (simp only: layer_output_def option.case)
  qed
  show ?thesis
  proof (intro exI conjI impI)
    show "CLIPTextEncoder ?q = Inr ?quick" by (rule 1)
    show "?quick = exact\<lparr>use_quick_gelu := True, chain := swap_gelu (chain exact)\<rparr>"
      by (rule 0)
    show "count_modules is_GeLU (chain ?quick) = 0" by (rule 2)
    show "count_modules is_ApproximateGeLU (chain ?quick) = count_modules is_GeLU (chain exact)"
      by (rule 3)
    show "module_at p (chain ?quick) = map_option swap_gelu (module_at p (chain exact))"
      by (rule 4)
  next
    assume "module_at p (chain exact) = Some m \<and> count_modules is_GeLU m = 0"
    then show "module_at p (chain ?quick) = Some m"
      and "layer_output K (chain ?quick) p x = layer_output K (chain exact) p x"
      using 5 by blast+
  qed
qed

theorem quick_gelu_rewrite_witness:
  "CLIPTextEncoder (example_args\<lparr>use_quick_gelu := False\<rparr>) = Inr example_encoder \<and>
   module_at [3, 0, 1] (chain example_encoder) = Some (fl_SelfAttention 4 2 True) \<and>
   count_modules is_GeLU (fl_SelfAttention 4 2 True) = 0 \<and>
   (\<exists>quick.
      CLIPTextEncoder (example_args\<lparr>use_quick_gelu := True\<rparr>) = Inr quick \<and>
      quick = example_encoder\<lparr>use_quick_gelu := True,
                chain := swap_gelu (chain example_encoder)\<rparr> \<and>
      count_modules is_GeLU (chain quick) = 0 \<and>
      count_modules is_ApproximateGeLU (chain quick) =
        count_modules is_GeLU (chain example_encoder) \<and>
      module_at [3, 0, 1] (chain quick) = Some (fl_SelfAttention 4 2 True) \<and>
      layer_output example_runtime (chain quick) [3, 0, 1] (Hidden 4 (Grid 2 [[1, 2]])) =
        layer_output example_runtime (chain example_encoder) [3, 0, 1]
          (Hidden 4 (Grid 2 [[1, 2]])))"
proof -
  have e: "example_args\<lparr>use_quick_gelu := False\<rparr> = example_args"
    by (simp add: example_args_def)
  have h: "CLIPTextEncoder (example_args\<lparr>use_quick_gelu := False\<rparr>) = Inr example_encoder"
    unfolding e by (rule example_encoder_constructed)
  have m: "module_at [3, 0, 1] (chain example_encoder) = Some (fl_SelfAttention 4 2 True)"
    by code_simp
  have c: "count_modules is_GeLU (fl_SelfAttention 4 2 True) = 0"
    by (simp add: is_GeLU_def)
  from quick_gelu_rewrite [OF h, of "[3, 0, 1]" "fl_SelfAttention 4 2 True" example_runtime
      "Hidden 4 (Grid 2 [[1, 2]])"] h m c
  show ?thesis by blast
qed

end
